theory Spec2Isabelle
  imports Main
begin

section \<open>TechHelper AI: the chat widget's client scripts\<close>

text \<open>
  The repository holds two near-duplicate client scripts. The unnamed script
  (\<^verbatim>\<open>src/unnamed/part_000\<close>) is the continuous-recognition variant, with the
  restart counter and the 30-second safety timer; \<^verbatim>\<open>src/frontend/app.js\<close> is the
  single-shot variant. Definitions without a prefix embed the continuous variant;
  definitions prefixed \<open>app_\<close> embed the functions of \<^verbatim>\<open>app.js\<close> that differ
  from it.

  Every global variable of the scripts and every DOM property they write is a field of
  one state record. Calls out of the script (network, speech engines, alert) are appended
  to the field \<open>effects\<close> in program order. An \<^verbatim>\<open>async\<close> function is split at its
  first \<^verbatim>\<open>await\<close>: the part before it issues the request and registers the request as
  in flight, the continuation (\<open>_cont\<close>) runs when the environment delivers the result.
  The two awaits of a request (\<^verbatim>\<open>fetch\<close> and \<^verbatim>\<open>response.json()\<close>) are one step: only the
  test of \<^verbatim>\<open>response.ok\<close> runs between them. Console output and message timestamps are
  not modelled.
\<close>

subsection \<open>Strings\<close>

text \<open>
  A JavaScript string is modelled as a \<^typ>\<open>string\<close>; a character stands for a code
  unit below 256. \<^verbatim>\<open>String.prototype.trim\<close> strips white space and line terminators
  from both ends; in this range these are TAB, LF, VT, FF, CR, SPACE and NBSP.
\<close>

definition is_space :: "char \<Rightarrow> bool" where
  "is_space c = (c \<in> set [CHR 0x09, CHR 0x0A, CHR 0x0B, CHR 0x0C, CHR 0x0D, CHR 0x20, CHR 0xA0])"

definition trim :: "string \<Rightarrow> string" where
  "trim s = rev (dropWhile is_space (rev (dropWhile is_space s)))"

subsection \<open>Data\<close>

text \<open>Configuration constants.\<close>

definition API_URL :: string where
  "API_URL = ''http://localhost:8000''"

definition WS_URL :: string where
  "WS_URL = ''ws://localhost:8000/ws''"

definition MAX_RESTART_ATTEMPTS :: nat where
  "MAX_RESTART_ATTEMPTS = 3"

text \<open>The value handed to \<^verbatim>\<open>JSON.stringify\<close> for a request body or a socket payload.\<close>

datatype json = JNull | JBool bool | JStr string | JObj "(string \<times> json) list"

text \<open>
  A parsed socket frame. The protocol gives the fields these types; a missing field is
  \<open>None\<close>. The \<^verbatim>\<open>session_cost\<close> of a stats frame is only written to the console. Data
  that is not JSON makes \<^verbatim>\<open>JSON.parse\<close> raise before the listener has changed anything.
\<close>

record frame =
  f_error :: "string option"
  f_type :: "string option"
  f_chunk :: "string option"
  f_done :: "bool option"

text \<open>JavaScript truthiness of a field that holds a string, or a boolean, when present.\<close>

definition truthy_str :: "string option \<Rightarrow> bool" where
  "truthy_str v = (case v of None \<Rightarrow> False | Some t \<Rightarrow> t \<noteq> [])"

definition truthy_bool :: "bool option \<Rightarrow> bool" where
  "truthy_bool v = (case v of None \<Rightarrow> False | Some b \<Rightarrow> b)"

text \<open>The string read from a field; the listeners read it after the truthiness test.\<close>

definition text_of :: "string option \<Rightarrow> string" where
  "text_of v = (case v of None \<Rightarrow> [] | Some t \<Rightarrow> t)"

text \<open>
  The outcome of a \<^verbatim>\<open>fetch\<close> followed by \<^verbatim>\<open>response.json()\<close>: the fetch rejects, or it
  resolves with \<^verbatim>\<open>response.ok\<close> and a body that either parses (\<open>Some\<close>) or makes
  \<^verbatim>\<open>json()\<close> reject (\<open>None\<close>). A body that parses has the shape of its endpoint.
\<close>

datatype 'a http_result = Rejected | Replied bool "'a option"

record chat_reply =
  r_session_id :: string
  r_response :: string

datatype kind = User | Assistant | Error

text \<open>An element of the message log: the class suffix and the text of its bubble.\<close>

record message =
  m_kind :: kind
  m_text :: string

datatype ready = CONNECTING | OPEN | CLOSING | CLOSED

record sock =
  ws_url :: string
  readyState :: ready

datatype rate = Rate_0_7 | Rate_0_9

datatype effect =
    Fetch string json
  | WsNew string
  | WsClose
  | WsSend json
  | SynthCancel
  | SynthSpeak string rate
  | RecStart
  | RecStop
  | RecAbort
  | Alert string
  | FocusPhone

text \<open>A pending timer: the safety timer of 30000 ms or the restart timer of 100 ms.\<close>

datatype timer = Safety | Restart

text \<open>A request in flight, named after the function that awaits it.\<close>

datatype pending = PendSend | PendStart | PendHelp

text \<open>The label written to \<^verbatim>\<open>micBtn.innerHTML\<close> by \<^verbatim>\<open>app.js\<close> (the literals start
  with an emoji): as the page has it, "Stop Recording", "Or tap here to speak".\<close>

datatype mic_label = Label_page | Label_stop_recording | Label_tap_to_speak

record state =
  sessionId :: "string option"
  socket :: "sock option"
  isRecording :: bool
  recognition :: bool
  speakSlowly :: bool
  lastResponse :: string
  recordingTimeout :: "nat option"
  restartAttempts :: nat
  streamingMessageEl :: "nat option"
  streamingText :: string
  messages :: "message list"
  inputValue :: string
  inputPlaceholder :: string
  typingHidden :: bool
  listeningHidden :: bool
  micRecording :: bool
  micDisplayNone :: bool
  micLabel :: mic_label
  welcomeActive :: bool
  chatActive :: bool
  modalHidden :: bool
  phoneValue :: string
  slowBtnActive :: bool
  synthSupported :: bool
  srSupported :: bool
  timers :: "(nat \<times> timer) list"
  nextTimer :: nat
  inflight :: "pending list"
  effects :: "effect list"

text \<open>
  \<open>sessionId\<close>, \<open>socket\<close> and \<open>recordingTimeout\<close> are \<open>None\<close> for \<^verbatim>\<open>null\<close>;
  \<open>recognition\<close> tells whether the recognition object exists; \<open>streamingMessageEl\<close>
  is the position of the streaming element in the message log (elements are never removed
  from the log, so the position identifies the element). \<open>synthSupported\<close> and
  \<open>srSupported\<close> are the browser's capabilities. \<open>timers\<close> are the pending timers with
  their handles, \<open>inflight\<close> the requests awaiting a response.
\<close>

subsection \<open>Speech synthesis\<close>

definition emit :: "effect \<Rightarrow> state \<Rightarrow> state" where
  "emit e s = s\<lparr>effects := effects s @ [e]\<rparr>"

text \<open>Pitch, volume and the choice of voice are attributes of the utterance that no
  other code reads; the model keeps the text and the rate.\<close>

definition speak :: "string \<Rightarrow> state \<Rightarrow> state" where
  "speak text s =
     (if \<not> synthSupported s then s
      else emit (SynthSpeak text (if speakSlowly s then Rate_0_7 else Rate_0_9))
             (emit SynthCancel s))"

text \<open>Without the synthesis engine \<^verbatim>\<open>stopSpeaking\<close> raises a TypeError (\<open>None\<close>).\<close>

definition stopSpeaking :: "state \<Rightarrow> state option" where
  "stopSpeaking s = (if synthSupported s then Some (emit SynthCancel s) else None)"

subsection \<open>Message log\<close>

definition showMessage :: "kind \<Rightarrow> string \<Rightarrow> state \<Rightarrow> state" where
  "showMessage k text s = s\<lparr>messages := messages s @ [\<lparr>m_kind = k, m_text = text\<rparr>]\<rparr>"

subsection \<open>Sending a message\<close>

definition socket_open :: "state \<Rightarrow> bool" where
  "socket_open s = (case socket s of None \<Rightarrow> False | Some k \<Rightarrow> readyState k = OPEN)"

definition chat_url :: string where
  "chat_url = API_URL @ ''/chat''"

definition send_body :: "string \<Rightarrow> state \<Rightarrow> json" where
  "send_body text s =
     JObj [(''message'', JStr text),
           (''session_id'', (case sessionId s of None \<Rightarrow> JNull | Some i \<Rightarrow> JStr i)),
           (''speak_slowly'', JBool (speakSlowly s))]"

definition fetch :: "string \<Rightarrow> json \<Rightarrow> pending \<Rightarrow> state \<Rightarrow> state" where
  "fetch u b p s = (emit (Fetch u b) s)\<lparr>inflight := inflight s @ [p]\<rparr>"

definition sendMessage :: "string \<Rightarrow> state \<Rightarrow> state" where
  "sendMessage text s =
     (if trim text = [] then s
      else
        let s1 = showMessage User text s;
            s2 = s1\<lparr>inputValue := []\<rparr>;
            s3 = s2\<lparr>typingHidden := False\<rparr>
        in if socket_open s3
           then emit (WsSend (JObj [(''message'', JStr text)])) s3
           else fetch chat_url (send_body text s3) PendSend s3)"

text \<open>The continuation of \<^verbatim>\<open>sendMessage\<close> after the request: the \<^verbatim>\<open>try\<close> block
  from \<^verbatim>\<open>response.ok\<close> on, its \<^verbatim>\<open>catch\<close> and its \<^verbatim>\<open>finally\<close>.\<close>

definition sendMessage_cont :: "chat_reply http_result \<Rightarrow> state \<Rightarrow> state" where
  "sendMessage_cont r s =
     (let failed = showMessage Error ''Sorry, I had trouble connecting. Please try again.'' s;
          s1 = (case r of
                  Rejected \<Rightarrow> failed
                | Replied ok body \<Rightarrow>
                    if \<not> ok then failed
                    else (case body of
                            None \<Rightarrow> failed
                          | Some d \<Rightarrow>
                              let a = s\<lparr>sessionId := Some (r_session_id d)\<rparr>;
                                  b = showMessage Assistant (r_response d) a;
                                  c = speak (r_response d) b
                              in c\<lparr>lastResponse := r_response d\<rparr>))
      in s1\<lparr>typingHidden := True\<rparr>)"

subsection \<open>Speech recognition\<close>

text \<open>\<^verbatim>\<open>setTimeout\<close> returns the handle \<open>nextTimer s\<close>. A handle is a positive integer,
  hence truthy: \<^verbatim>\<open>if (recordingTimeout)\<close> tests for \<^verbatim>\<open>null\<close>.\<close>

definition setTimeout :: "timer \<Rightarrow> state \<Rightarrow> state" where
  "setTimeout k s = s\<lparr>timers := timers s @ [(nextTimer s, k)], nextTimer := Suc (nextTimer s)\<rparr>"

definition clearTimeout :: "nat \<Rightarrow> state \<Rightarrow> state" where
  "clearTimeout h s = s\<lparr>timers := filter (\<lambda>(i, k). i \<noteq> h) (timers s)\<rparr>"

definition stopRecording :: "state \<Rightarrow> state" where
  "stopRecording s =
     (let s1 = s\<lparr>isRecording := False, restartAttempts := 0\<rparr>;
          s2 = (case recordingTimeout s1 of
                  None \<Rightarrow> s1
                | Some h \<Rightarrow> (clearTimeout h s1)\<lparr>recordingTimeout := None\<rparr>);
          s3 = (if recognition s2 then emit RecAbort (emit RecStop s2) else s2)
      in s3\<lparr>micRecording := False, listeningHidden := True,
            inputPlaceholder := ''Type your question here...''\<rparr>)"

text \<open>The callback of the 30-second timer set by \<^verbatim>\<open>recognition.onstart\<close>.\<close>

definition recordingTimeout_callback :: "state \<Rightarrow> state" where
  "recordingTimeout_callback s =
     (if isRecording s then
        let s1 = stopRecording s;
            text = trim (inputValue s1)
        in if text \<noteq> [] then sendMessage text s1 else s1
      else s)"

definition recognition_onstart :: "state \<Rightarrow> state" where
  "recognition_onstart s =
     (let s1 = s\<lparr>isRecording := True, restartAttempts := 0, micRecording := True,
                 listeningHidden := False,
                 inputPlaceholder := ''Listening... Speak clearly''\<rparr>;
          s2 = (case recordingTimeout s1 of None \<Rightarrow> s1 | Some h \<Rightarrow> clearTimeout h s1)
      in (setTimeout Safety s2)\<lparr>recordingTimeout := Some (nextTimer s2)\<rparr>)"

text \<open>The event's results from \<^verbatim>\<open>resultIndex\<close> on, each with the transcript of its
  first alternative and its \<^verbatim>\<open>isFinal\<close> flag.\<close>

definition recognition_onresult :: "(string \<times> bool) list \<Rightarrow> state \<Rightarrow> state" where
  "recognition_onresult results s =
     (let finalTranscript = concat (map fst (filter snd results));
          interimTranscript = concat (map fst (filter (\<lambda>r. \<not> snd r) results));
          s1 = (if interimTranscript \<noteq> [] then s\<lparr>inputValue := interimTranscript\<rparr> else s)
      in if finalTranscript \<noteq> []
         then s1\<lparr>inputValue := finalTranscript,
                 inputPlaceholder := ''Still listening... tap mic when done''\<rparr>
         else s1)"

definition recognition_onerror :: "string \<Rightarrow> state \<Rightarrow> state" where
  "recognition_onerror code s =
     (if code = ''not-allowed''
      then stopRecording
             (showMessage Error ''Please allow microphone access to use voice input.'' s)
      else if code = ''network''
      then stopRecording (showMessage Error ''Network error. Please try typing instead.'' s)
      else s)"

definition recognition_onend :: "state \<Rightarrow> state" where
  "recognition_onend s =
     (if isRecording s \<and> restartAttempts s < MAX_RESTART_ATTEMPTS
      then setTimeout Restart (s\<lparr>restartAttempts := Suc (restartAttempts s)\<rparr>)
      else if restartAttempts s \<ge> MAX_RESTART_ATTEMPTS then stopRecording s
      else s)"

text \<open>The callback of the 100 ms timer set by \<^verbatim>\<open>recognition.onend\<close>. Whether
  \<^verbatim>\<open>recognition.start()\<close> raises is the engine's choice, given by \<open>throws\<close>.\<close>

definition restart_callback :: "bool \<Rightarrow> state \<Rightarrow> state" where
  "restart_callback throws s =
     (if isRecording s \<and> recognition s
      then (if throws then stopRecording (emit RecStart s) else emit RecStart s)
      else s)"

definition initSpeechRecognition :: "state \<Rightarrow> bool \<times> state" where
  "initSpeechRecognition s =
     (if \<not> srSupported s then (False, s\<lparr>micDisplayNone := True\<rparr>)
      else (True, s\<lparr>recognition := True\<rparr>))"

text \<open>An exception of \<^verbatim>\<open>recognition.start()\<close> is caught and only logged.\<close>

definition startRecording :: "state \<Rightarrow> state" where
  "startRecording s =
     (if \<not> recognition s then
        (case initSpeechRecognition s of
           (False, s1) \<Rightarrow> showMessage Error ''Voice input is not supported on your device.'' s1
         | (True, s1) \<Rightarrow> emit RecStart s1)
      else emit RecStart s)"

subsection \<open>WebSocket and streaming\<close>

text \<open>The text of \<^verbatim>\<open>${sessionId}\<close> in a template string.\<close>

definition sessionId_text :: "state \<Rightarrow> string" where
  "sessionId_text s = (case sessionId s of None \<Rightarrow> ''null'' | Some i \<Rightarrow> i)"

definition set_ready :: "ready \<Rightarrow> state \<Rightarrow> state" where
  "set_ready r s =
     (case socket s of None \<Rightarrow> s | Some k \<Rightarrow> s\<lparr>socket := Some (k\<lparr>readyState := r\<rparr>)\<rparr>)"

text \<open>\<^verbatim>\<open>socket.close()\<close>: a socket that is not yet closed starts closing.\<close>

definition socket_close :: "state \<Rightarrow> state" where
  "socket_close s =
     (case socket s of
        None \<Rightarrow> s
      | Some k \<Rightarrow> emit WsClose (if readyState k = CLOSED then s else set_ready CLOSING s))"

text \<open>
  The constructor \<^verbatim>\<open>new WebSocket(url)\<close> raises a SyntaxError for a URL with a fragment.
  After the fixed prefix \<^verbatim>\<open>WS_URL\<close> the URL always parses, so the constructor raises
  exactly when the text of the session identifier contains \<^verbatim>\<open>#\<close>.
\<close>

datatype error = SyntaxError

definition valid_ws_url :: "string \<Rightarrow> bool" where
  "valid_ws_url u = (CHR ''#'' \<notin> set u)"

text \<open>\<^verbatim>\<open>connectWebSocket\<close> returns the new state (\<open>Inr\<close>), or raises with the state reached
  at the constructor (\<open>Inl\<close>): the earlier socket has been closed and is still the value
  of \<^verbatim>\<open>socket\<close>. The effect \<open>WsNew\<close> stands for a constructor call that returned.\<close>

definition connectWebSocket :: "state \<Rightarrow> (error \<times> state) + state" where
  "connectWebSocket s =
     (let s1 = (if socket s \<noteq> None then socket_close s else s);
          u = WS_URL @ ''/'' @ sessionId_text s1
      in if \<not> valid_ws_url u then Inl (SyntaxError, s1)
         else Inr ((emit (WsNew u) s1)\<lparr>socket := Some \<lparr>ws_url = u, readyState = CONNECTING\<rparr>\<rparr>))"

definition startStreamingMessage :: "state \<Rightarrow> state" where
  "startStreamingMessage s =
     s\<lparr>streamingMessageEl := Some (length (messages s)),
       messages := messages s @ [\<lparr>m_kind = Assistant, m_text = []\<rparr>],
       streamingText := []\<rparr>"

text \<open>Writing the bubble's text of the streaming element. The position is always inside
  the log; outside it \<open>list_update\<close> changes nothing.\<close>

definition set_bubble :: "nat \<Rightarrow> string \<Rightarrow> message list \<Rightarrow> message list" where
  "set_bubble i text ms = ms[i := (ms ! i)\<lparr>m_text := text\<rparr>]"

definition updateStreamingMessage :: "string \<Rightarrow> state \<Rightarrow> state" where
  "updateStreamingMessage chunk s =
     (let s1 = (if streamingMessageEl s = None then startStreamingMessage s else s);
          s2 = s1\<lparr>streamingText := streamingText s1 @ chunk\<rparr>
      in case streamingMessageEl s2 of
           None \<Rightarrow> s2
         | Some i \<Rightarrow> s2\<lparr>messages := set_bubble i (streamingText s2) (messages s2)\<rparr>)"

definition finishStreamingMessage :: "state \<Rightarrow> state" where
  "finishStreamingMessage s =
     (let s1 = (if streamingMessageEl s \<noteq> None then
                  let a = s\<lparr>lastResponse := streamingText s\<rparr>;
                      b = speak (streamingText a) a
                  in b\<lparr>streamingMessageEl := None, streamingText := []\<rparr>
                else s)
      in s1\<lparr>typingHidden := True\<rparr>)"

definition socket_onmessage :: "frame \<Rightarrow> state \<Rightarrow> state" where
  "socket_onmessage data s =
     (if truthy_str (f_error data)
      then (showMessage Error (text_of (f_error data)) s)\<lparr>typingHidden := True\<rparr>
      else if f_type data = Some ''stats'' then s
      else
        let s1 = (if truthy_str (f_chunk data)
                  then updateStreamingMessage (text_of (f_chunk data)) s else s)
        in if truthy_bool (f_done data) then finishStreamingMessage s1 else s1)"

definition socket_onerror :: "state \<Rightarrow> state" where
  "socket_onerror s = showMessage Error ''Connection error. Please try again.'' s"

subsection \<open>Session and human help\<close>

text \<open>
  The continuation of \<^verbatim>\<open>startSession\<close>. Its \<^verbatim>\<open>catch\<close> block (an alert) is entered when
  the fetch rejects, when the body does not parse, and when \<^verbatim>\<open>connectWebSocket\<close> raises;
  in the last case the identifier has been assigned and the screens switched already, and
  the greeting is neither shown nor spoken nor cached. \<^verbatim>\<open>response.ok\<close> is not tested.
\<close>

definition startSession :: "state \<Rightarrow> state" where
  "startSession s = fetch chat_url (JObj [(''message'', JStr ''Hello'')]) PendStart s"

definition startSession_cont :: "chat_reply http_result \<Rightarrow> state \<Rightarrow> state" where
  "startSession_cont r s =
     (let caught = emit (Alert ''Could not connect to the service. Please try again later.'')
      in case r of
           Rejected \<Rightarrow> caught s
         | Replied ok body \<Rightarrow>
             (case body of
                None \<Rightarrow> caught s
              | Some d \<Rightarrow>
                  let a = s\<lparr>sessionId := Some (r_session_id d)\<rparr>;
                      b = a\<lparr>welcomeActive := False, chatActive := True\<rparr>
                  in case connectWebSocket b of
                       Inl (err, c) \<Rightarrow> caught c
                     | Inr c \<Rightarrow>
                         let e = showMessage Assistant (r_response d) c;
                             f = speak (r_response d) e
                         in f\<lparr>lastResponse := r_response d\<rparr>))"

definition showHumanHelpModal :: "state \<Rightarrow> state" where
  "showHumanHelpModal s = emit FocusPhone (s\<lparr>modalHidden := False\<rparr>)"

definition hideHumanHelpModal :: "state \<Rightarrow> state" where
  "hideHumanHelpModal s = s\<lparr>modalHidden := True, phoneValue := []\<rparr>"

definition requestHumanHelp :: "state \<Rightarrow> state" where
  "requestHumanHelp s =
     (let phone = trim (phoneValue s)
      in fetch (API_URL @ ''/session/'' @ sessionId_text s @ ''/human-help'')
           (JObj [(''phone'', JStr phone)]) PendHelp s)"

definition requestHumanHelp_cont :: "string http_result \<Rightarrow> state \<Rightarrow> state" where
  "requestHumanHelp_cont r s =
     (let failed = showMessage Error
                     ''Could not request help. Please call 1-800-TECH-HELP directly.'' s
      in case r of
           Rejected \<Rightarrow> failed
         | Replied ok body \<Rightarrow>
             (case body of
                None \<Rightarrow> failed
              | Some m \<Rightarrow> speak m (showMessage Assistant m (hideHumanHelpModal s))))"

subsection \<open>Event listeners\<close>

definition micBtn_click :: "state \<Rightarrow> state" where
  "micBtn_click s =
     (if isRecording s then
        let message = trim (inputValue s);
            s1 = stopRecording s
        in if message \<noteq> [] then sendMessage message s1
           else speak ''I did not hear anything. Please try speaking again.''
                  (s1\<lparr>inputPlaceholder := ''No speech detected. Please try again.''\<rparr>)
      else
        startRecording
          (s\<lparr>inputValue := [], inputPlaceholder := ''Listening... Speak now''\<rparr>))"

definition quickBtn_click :: "string \<Rightarrow> state \<Rightarrow> state" where
  "quickBtn_click message s =
     (if message = ''Can you say that again?'' then
        (if lastResponse s \<noteq> [] then speak (lastResponse s) s
         else speak (''I haven'' @ [CHR 0x27] @ ''t said anything yet. How can I help you today?'') s)
      else sendMessage message s)"

definition speakSlowlyBtn_click :: "state \<Rightarrow> state" where
  "speakSlowlyBtn_click s =
     (let s1 = s\<lparr>speakSlowly := \<not> speakSlowly s\<rparr>;
          s2 = s1\<lparr>slowBtnActive := speakSlowly s1\<rparr>
      in speak (if speakSlowly s2 then ''I will speak more slowly now.''
                else ''I will speak at normal speed.'') s2)"

definition readLastBtn_click :: "state \<Rightarrow> state" where
  "readLastBtn_click s =
     (if lastResponse s \<noteq> [] then speak (lastResponse s) s
      else speak (''I haven'' @ [CHR 0x27] @ ''t answered anything yet. How can I help you?'') s)"

text \<open>\<^verbatim>\<open>init\<close>: the voices are pre-loaded, the recognition object is created and the
  listeners are registered.\<close>

definition init :: "state \<Rightarrow> state" where
  "init s = snd (initSpeechRecognition s)"

subsection \<open>The single-shot variant (\<^verbatim>\<open>app.js\<close>)\<close>

text \<open>
  \<^verbatim>\<open>app.js\<close> has the same text as the continuous variant, comments and console output
  apart, for \<^verbatim>\<open>showMessage\<close>, \<^verbatim>\<open>updateStreamingMessage\<close> (with
  \<^verbatim>\<open>startStreamingMessage\<close> written out in place), \<^verbatim>\<open>finishStreamingMessage\<close>,
  \<^verbatim>\<open>socket.onmessage\<close>, \<^verbatim>\<open>connectWebSocket\<close>, the part of \<^verbatim>\<open>sendMessage\<close>,
  \<^verbatim>\<open>startSession\<close> and \<^verbatim>\<open>requestHumanHelp\<close> before the request, the modal functions
  and the listeners other than the microphone's; its \<^verbatim>\<open>speak\<close> differs in the choice of
  voice only. The definitions above embed these functions of both scripts. The functions
  below differ. \<^verbatim>\<open>app.js\<close> has no restart counter and no timer: the fields
  \<open>restartAttempts\<close>, \<open>recordingTimeout\<close> and \<open>timers\<close> are never written by it.
  The microphone button is taken to be on the page.
\<close>

definition app_sendMessage_cont :: "chat_reply http_result \<Rightarrow> state \<Rightarrow> state" where
  "app_sendMessage_cont r s =
     (let failed = showMessage Error ''Sorry, connection issue. Please try again.'' s;
          s1 = (case r of
                  Rejected \<Rightarrow> failed
                | Replied ok body \<Rightarrow>
                    if \<not> ok then failed
                    else (case body of
                            None \<Rightarrow> failed
                          | Some d \<Rightarrow>
                              let a = s\<lparr>sessionId := Some (r_session_id d)\<rparr>;
                                  b = showMessage Assistant (r_response d) a;
                                  c = speak (r_response d) b
                              in c\<lparr>lastResponse := r_response d\<rparr>))
      in s1\<lparr>typingHidden := True\<rparr>)"

definition app_stopRecording :: "state \<Rightarrow> state" where
  "app_stopRecording s =
     (let s1 = s\<lparr>isRecording := False\<rparr>;
          s2 = (if recognition s1 then emit RecStop s1 else s1)
      in s2\<lparr>micRecording := False, micLabel := Label_tap_to_speak,
            inputPlaceholder := ''Tap here and type your question...''\<rparr>)"

definition app_recognition_onstart :: "state \<Rightarrow> state" where
  "app_recognition_onstart s =
     s\<lparr>isRecording := True, micRecording := True, micLabel := Label_stop_recording,
       inputPlaceholder := ''Listening... speak now''\<rparr>"

definition app_recognition_onresult :: "(string \<times> bool) list \<Rightarrow> state \<Rightarrow> state" where
  "app_recognition_onresult results s =
     (let transcript = concat (map fst results)
      in if transcript \<noteq> [] then s\<lparr>inputValue := transcript\<rparr> else s)"

definition app_recognition_onerror :: "string \<Rightarrow> state \<Rightarrow> state" where
  "app_recognition_onerror code s = app_stopRecording s"

definition app_recognition_onend :: "state \<Rightarrow> state" where
  "app_recognition_onend s =
     (let s1 = app_stopRecording s;
          text = trim (inputValue s1)
      in if text \<noteq> [] then sendMessage text s1 else s1)"

definition app_initSpeechRecognition :: "state \<Rightarrow> bool \<times> state" where
  "app_initSpeechRecognition s =
     (if \<not> srSupported s then (False, s) else (True, s\<lparr>recognition := True\<rparr>))"

definition app_startRecording :: "state \<Rightarrow> state" where
  "app_startRecording s =
     (if \<not> recognition s then
        (case app_initSpeechRecognition s of
           (False, s1) \<Rightarrow>
             emit (Alert ''Voice input is not supported in your browser. Please type instead.'') s1
         | (True, s1) \<Rightarrow> emit RecStart (s1\<lparr>inputValue := []\<rparr>))
      else emit RecStart (s\<lparr>inputValue := []\<rparr>))"

definition app_startSession_cont :: "chat_reply http_result \<Rightarrow> state \<Rightarrow> state" where
  "app_startSession_cont r s =
     (let caught = emit (Alert ''Could not connect. Please try again.'')
      in case r of
           Rejected \<Rightarrow> caught s
         | Replied ok body \<Rightarrow>
             (case body of
                None \<Rightarrow> caught s
              | Some d \<Rightarrow>
                  let a = s\<lparr>sessionId := Some (r_session_id d)\<rparr>;
                      b = a\<lparr>welcomeActive := False, chatActive := True\<rparr>
                  in case connectWebSocket b of
                       Inl (err, c) \<Rightarrow> caught c
                     | Inr c \<Rightarrow>
                         let e = showMessage Assistant (r_response d) c;
                             f = speak (r_response d) e
                         in f\<lparr>lastResponse := r_response d\<rparr>))"

definition app_requestHumanHelp_cont :: "string http_result \<Rightarrow> state \<Rightarrow> state" where
  "app_requestHumanHelp_cont r s =
     (let failed = showMessage Error ''Could not request help. Please call 1-800-TECH-HELP.'' s
      in case r of
           Rejected \<Rightarrow> failed
         | Replied ok body \<Rightarrow>
             (case body of
                None \<Rightarrow> failed
              | Some m \<Rightarrow> speak m (showMessage Assistant m (hideHumanHelpModal s))))"

definition app_micBtn_click :: "state \<Rightarrow> state" where
  "app_micBtn_click s = (if isRecording s then app_stopRecording s else app_startRecording s)"

definition app_init :: "state \<Rightarrow> state" where
  "app_init s = snd (app_initSpeechRecognition s)"

subsection \<open>Events\<close>

text \<open>
  Everything the browser can deliver to the page: clicks and keys, edits of the two input
  fields, the recognition object's events, a timer that fires (with the engine's answer
  to a restart), the socket's events, and the result of a request in flight, given by
  its position in \<open>inflight\<close>.
\<close>

datatype event =
    Click_start
  | Click_send
  | Key_press string
  | Click_mic
  | Click_quick string
  | Click_slow
  | Click_read_last
  | Click_human_help
  | Click_confirm_help
  | Click_cancel_help
  | Click_modal bool
  | Focus_input
  | Input_typed string
  | Phone_typed string
  | Rec_start
  | Rec_result "(string \<times> bool) list"
  | Rec_error string
  | Rec_end
  | Timer_fire nat bool
  | Ws_open
  | Ws_message frame
  | Ws_error
  | Ws_close
  | Http_chat nat "chat_reply http_result"
  | Http_help nat "string http_result"

definition ws_opened :: "state \<Rightarrow> state" where
  "ws_opened s =
     (case socket s of
        None \<Rightarrow> s
      | Some k \<Rightarrow> if readyState k = CONNECTING then set_ready OPEN s else s)"

definition settle :: "nat \<Rightarrow> state \<Rightarrow> state" where
  "settle i s = s\<lparr>inflight := take i (inflight s) @ drop (Suc i) (inflight s)\<rparr>"

definition expire :: "nat \<Rightarrow> state \<Rightarrow> state" where
  "expire h s = s\<lparr>timers := filter (\<lambda>(i, k). i \<noteq> h) (timers s)\<rparr>"

text \<open>One event of the continuous variant. An event whose listener does not exist (no
  recognition object, no socket, no such timer or request) changes nothing.\<close>

fun step :: "event \<Rightarrow> state \<Rightarrow> state" where
  "step Click_start s = startSession s"
| "step Click_send s = sendMessage (inputValue s) s"
| "step (Key_press key) s = (if key = ''Enter'' then sendMessage (inputValue s) s else s)"
| "step Click_mic s = micBtn_click s"
| "step (Click_quick m) s = quickBtn_click m s"
| "step Click_slow s = speakSlowlyBtn_click s"
| "step Click_read_last s = readLastBtn_click s"
| "step Click_human_help s = showHumanHelpModal s"
| "step Click_confirm_help s = requestHumanHelp s"
| "step Click_cancel_help s = hideHumanHelpModal s"
| "step (Click_modal on_backdrop) s = (if on_backdrop then hideHumanHelpModal s else s)"
| "step Focus_input s = (case stopSpeaking s of None \<Rightarrow> s | Some s1 \<Rightarrow> s1)"
| "step (Input_typed t) s = s\<lparr>inputValue := t\<rparr>"
| "step (Phone_typed t) s = s\<lparr>phoneValue := t\<rparr>"
| "step Rec_start s = (if recognition s then recognition_onstart s else s)"
| "step (Rec_result rs) s = (if recognition s then recognition_onresult rs s else s)"
| "step (Rec_error code) s = (if recognition s then recognition_onerror code s else s)"
| "step Rec_end s = (if recognition s then recognition_onend s else s)"
| "step (Timer_fire h throws) s =
     (case map_of (timers s) h of
        None \<Rightarrow> s
      | Some Safety \<Rightarrow> recordingTimeout_callback (expire h s)
      | Some Restart \<Rightarrow> restart_callback throws (expire h s))"
| "step Ws_open s = ws_opened s"
| "step (Ws_message data) s = (if socket_open s then socket_onmessage data s else s)"
| "step Ws_error s = (if socket s \<noteq> None then socket_onerror s else s)"
| "step Ws_close s = set_ready CLOSED s"
| "step (Http_chat i r) s =
     (if i < length (inflight s) then
        (case inflight s ! i of
           PendSend \<Rightarrow> sendMessage_cont r (settle i s)
         | PendStart \<Rightarrow> startSession_cont r (settle i s)
         | PendHelp \<Rightarrow> s)
      else s)"
| "step (Http_help i r) s =
     (if i < length (inflight s) then
        (case inflight s ! i of
           PendHelp \<Rightarrow> requestHumanHelp_cont r (settle i s)
         | _ \<Rightarrow> s)
      else s)"

text \<open>One event of the single-shot variant; its socket error listener only logs.\<close>

fun app_step :: "event \<Rightarrow> state \<Rightarrow> state" where
  "app_step Click_start s = startSession s"
| "app_step Click_send s = sendMessage (inputValue s) s"
| "app_step (Key_press key) s = (if key = ''Enter'' then sendMessage (inputValue s) s else s)"
| "app_step Click_mic s = app_micBtn_click s"
| "app_step (Click_quick m) s = quickBtn_click m s"
| "app_step Click_slow s = speakSlowlyBtn_click s"
| "app_step Click_read_last s = readLastBtn_click s"
| "app_step Click_human_help s = showHumanHelpModal s"
| "app_step Click_confirm_help s = requestHumanHelp s"
| "app_step Click_cancel_help s = hideHumanHelpModal s"
| "app_step (Click_modal on_backdrop) s = (if on_backdrop then hideHumanHelpModal s else s)"
| "app_step Focus_input s = (case stopSpeaking s of None \<Rightarrow> s | Some s1 \<Rightarrow> s1)"
| "app_step (Input_typed t) s = s\<lparr>inputValue := t\<rparr>"
| "app_step (Phone_typed t) s = s\<lparr>phoneValue := t\<rparr>"
| "app_step Rec_start s = (if recognition s then app_recognition_onstart s else s)"
| "app_step (Rec_result rs) s = (if recognition s then app_recognition_onresult rs s else s)"
| "app_step (Rec_error code) s = (if recognition s then app_recognition_onerror code s else s)"
| "app_step Rec_end s = (if recognition s then app_recognition_onend s else s)"
| "app_step (Timer_fire h throws) s = s"
| "app_step Ws_open s = ws_opened s"
| "app_step (Ws_message data) s = (if socket_open s then socket_onmessage data s else s)"
| "app_step Ws_error s = s"
| "app_step Ws_close s = set_ready CLOSED s"
| "app_step (Http_chat i r) s =
     (if i < length (inflight s) then
        (case inflight s ! i of
           PendSend \<Rightarrow> app_sendMessage_cont r (settle i s)
         | PendStart \<Rightarrow> app_startSession_cont r (settle i s)
         | PendHelp \<Rightarrow> s)
      else s)"
| "app_step (Http_help i r) s =
     (if i < length (inflight s) then
        (case inflight s ! i of
           PendHelp \<Rightarrow> app_requestHumanHelp_cont r (settle i s)
         | _ \<Rightarrow> s)
      else s)"

fun run :: "event list \<Rightarrow> state \<Rightarrow> state" where
  "run [] s = s"
| "run (e # es) s = run es (step e s)"

fun app_run :: "event list \<Rightarrow> state \<Rightarrow> state" where
  "app_run [] s = s"
| "app_run (e # es) s = app_run es (app_step e s)"

text \<open>The state when the script has been evaluated, before \<^verbatim>\<open>init\<close> runs: the global
  variables have their initial values, no timer is pending, nothing is in flight and
  nothing has been called. The content of the page and the browser's capabilities are
  free.\<close>

definition loaded :: "state \<Rightarrow> bool" where
  "loaded s =
     (sessionId s = None \<and> socket s = None \<and> \<not> isRecording s \<and> \<not> recognition s \<and>
      \<not> speakSlowly s \<and> lastResponse s = [] \<and> recordingTimeout s = None \<and>
      restartAttempts s = 0 \<and> streamingMessageEl s = None \<and> streamingText s = [] \<and>
      timers s = [] \<and> inflight s = [] \<and> effects s = [])"

text \<open>The states the continuous variant can reach: \<^verbatim>\<open>init\<close> on a loaded page, then any
  events in any order.\<close>

inductive reachable :: "state \<Rightarrow> bool" where
  reachable_init: "loaded s \<Longrightarrow> reachable (init s)"
| reachable_step: "reachable s \<Longrightarrow> reachable (step e s)"

text \<open>A page for concrete runs: an empty log, both capabilities present.\<close>

definition page :: state where
  "page =
     \<lparr>sessionId = None, socket = None, isRecording = False, recognition = False,
      speakSlowly = False, lastResponse = [], recordingTimeout = None, restartAttempts = 0,
      streamingMessageEl = None, streamingText = [], messages = [], inputValue = [],
      inputPlaceholder = ''Type your question here...'', typingHidden = True,
      listeningHidden = True, micRecording = False, micDisplayNone = False,
      micLabel = Label_page, welcomeActive = True, chatActive = False, modalHidden = True,
      phoneValue = [], slowBtnActive = False, synthSupported = True, srSupported = True,
      timers = [], nextTimer = 1, inflight = [], effects = []\<rparr>"

text \<open>The messages dispatched to the assistant, in order: the payloads handed to
  \<^verbatim>\<open>socket.send\<close> and the bodies posted to \<^verbatim>\<open>/chat\<close>; \<open>message_of\<close> reads the
  \<^verbatim>\<open>message\<close> field of such a payload.\<close>

fun dispatch_of :: "effect \<Rightarrow> json list" where
  "dispatch_of (WsSend j) = [j]"
| "dispatch_of (Fetch u j) = (if u = chat_url then [j] else [])"
| "dispatch_of _ = []"

definition dispatched :: "state \<Rightarrow> json list" where
  "dispatched s = concat (map dispatch_of (effects s))"

fun message_of :: "json \<Rightarrow> string option" where
  "message_of (JObj kvs) =
     (case map_of kvs ''message'' of Some (JStr m) \<Rightarrow> Some m | _ \<Rightarrow> None)"
| "message_of _ = None"

text \<open>The frames \<^verbatim>\<open>{chunk: c}\<close> and \<^verbatim>\<open>{done: true}\<close>, and the delivery of a sequence of
  frames to \<^verbatim>\<open>socket.onmessage\<close>.\<close>

definition chunk_frame :: "string \<Rightarrow> frame" where
  "chunk_frame c = \<lparr>f_error = None, f_type = None, f_chunk = Some c, f_done = None\<rparr>"

definition done_frame :: frame where
  "done_frame = \<lparr>f_error = None, f_type = None, f_chunk = None, f_done = Some True\<rparr>"

fun deliver :: "frame list \<Rightarrow> state \<Rightarrow> state" where
  "deliver [] s = s"
| "deliver (d # ds) s = deliver ds (socket_onmessage d s)"


section \<open>Properties\<close>

subsection \<open>Auxiliary facts\<close>

lemmas basic_defs = emit_def speak_def showMessage_def fetch_def setTimeout_def clearTimeout_def
  expire_def settle_def set_ready_def ws_opened_def stopSpeaking_def text_of_def socket_close_def
  valid_ws_url_def

lemmas handler_defs = sendMessage_def sendMessage_cont_def stopRecording_def
  recordingTimeout_callback_def recognition_onstart_def recognition_onresult_def
  recognition_onerror_def recognition_onend_def restart_callback_def initSpeechRecognition_def
  startRecording_def connectWebSocket_def startStreamingMessage_def updateStreamingMessage_def
  finishStreamingMessage_def socket_onmessage_def socket_onerror_def startSession_def
  startSession_cont_def showHumanHelpModal_def hideHumanHelpModal_def requestHumanHelp_def
  requestHumanHelp_cont_def micBtn_click_def quickBtn_click_def speakSlowlyBtn_click_def
  readLastBtn_click_def

lemmas app_defs = app_sendMessage_cont_def app_stopRecording_def app_recognition_onstart_def
  app_recognition_onresult_def app_recognition_onerror_def app_recognition_onend_def
  app_initSpeechRecognition_def app_startRecording_def app_startSession_cont_def
  app_requestHumanHelp_cont_def app_micBtn_click_def

lemmas const_defs = API_URL_def WS_URL_def chat_url_def MAX_RESTART_ATTEMPTS_def
  sessionId_text_def send_body_def socket_open_def truthy_str_def truthy_bool_def text_of_def

lemma trim_idem: "trim (trim t) = trim t"
proof -
  let ?u = "dropWhile is_space t"
  let ?v = "rev (dropWhile is_space (rev ?u))"
  have keep: "dropWhile is_space ?v = ?v"
  proof (cases ?v)
    case Nil
    show ?thesis unfolding Nil by simp
  next
    case (Cons x xs)
    have ne: "?u \<noteq> []"
    proof
      assume e: "?u = []"
      show False using Cons unfolding e by simp
    qed
    have "\<exists>zs. ?u = ?v @ zs"
      by (metis rev_append rev_rev_ident takeWhile_dropWhile_id)
    then obtain zs where "?u = (x # xs) @ zs" using Cons by metis
    then have "hd ?u = x" by (metis append_Cons list.sel(1))
    moreover have "\<not> is_space (hd ?u)" using ne hd_dropWhile by metis
    ultimately show ?thesis using Cons by simp
  qed
  show ?thesis unfolding trim_def by (simp add: keep)
qed

lemma reachable_run: "reachable s \<Longrightarrow> reachable (run es s)"
  by (induction es arbitrary: s) (auto intro: reachable_step)

lemma loaded_page: "loaded page"
  by (simp add: loaded_def page_def)

subsection \<open>Blank input\<close>

text \<open>
  C1. For every input string that is blank or consists of white space only, that is,
  whose \<^verbatim>\<open>trim()\<close> is empty, \<^verbatim>\<open>sendMessage\<close> returns at once and the state is what it
  was: nothing is handed to the socket, no request is issued or left in flight, and no
  element is appended to the message log. The part of \<^verbatim>\<open>sendMessage\<close> before the
  request has the same text in both scripts.
\<close>

theorem sendMessage_blank_noop:
  "trim text = [] \<Longrightarrow>
   sendMessage text s = s \<and>
   effects (sendMessage text s) = effects s \<and>
   inflight (sendMessage text s) = inflight s \<and>
   messages (sendMessage text s) = messages s"
  by (simp add: sendMessage_def)

theorem sendMessage_blank_noop_witness:
  "trim [CHR 0x20, CHR 0x09, CHR 0x0A] = [] \<and>
   sendMessage [CHR 0x20, CHR 0x09, CHR 0x0A] page = page \<and>
   effects (sendMessage [CHR 0x20, CHR 0x09, CHR 0x0A] page) = [] \<and>
   messages (sendMessage [CHR 0x20, CHR 0x09, CHR 0x0A] page) = []"
proof -
  have blank: "trim [CHR 0x20, CHR 0x09, CHR 0x0A] = []"
    by (simp add: trim_def is_space_def)
  show ?thesis
    using blank sendMessage_blank_noop [OF blank, of page] by (simp add: page_def)
qed

subsection \<open>Streaming replies\<close>

lemma onmessage_chunk:
  "socket_onmessage (chunk_frame c) s = (if c = [] then s else updateStreamingMessage c s)"
  by (simp add: socket_onmessage_def chunk_frame_def truthy_str_def truthy_bool_def text_of_def)

lemma onmessage_done: "socket_onmessage done_frame s = finishStreamingMessage s"
  by (simp add: socket_onmessage_def done_frame_def truthy_str_def truthy_bool_def)

lemma set_bubble_twice: "set_bubble i b (set_bubble i a ms) = set_bubble i b ms"
  by (cases "i < length ms") (simp_all add: set_bubble_def list_update_beyond)

lemma update_in_progress:
  "streamingMessageEl s = Some i \<Longrightarrow>
   updateStreamingMessage c s =
     s\<lparr>streamingText := streamingText s @ c,
       messages := set_bubble i (streamingText s @ c) (messages s)\<rparr>"
  by (simp add: updateStreamingMessage_def)

lemma update_fresh:
  "streamingMessageEl s = None \<Longrightarrow>
   updateStreamingMessage c s =
     s\<lparr>streamingMessageEl := Some (length (messages s)),
       streamingText := c,
       messages := messages s @ [\<lparr>m_kind = Assistant, m_text = c\<rparr>]\<rparr>"
  by (simp add: updateStreamingMessage_def startStreamingMessage_def set_bubble_def)

text \<open>Chunks that arrive while an element is streaming extend its text; empty chunks are
  skipped by the truthiness test of \<^verbatim>\<open>data.chunk\<close>.\<close>

lemma deliver_chunks_in_progress:
  "streamingMessageEl s = Some i \<Longrightarrow>
   deliver (map chunk_frame cs) s =
     (if concat cs = [] then s
      else s\<lparr>streamingText := streamingText s @ concat cs,
             messages := set_bubble i (streamingText s @ concat cs) (messages s)\<rparr>)"
proof (induction cs arbitrary: s)
  case Nil
  then show ?case by simp
next
  case (Cons c cs)
  show ?case
  proof (cases "c = []")
    case True
    then show ?thesis using Cons by (simp add: onmessage_chunk)
  next
    case False
    have el: "streamingMessageEl (updateStreamingMessage c s) = Some i"
      using Cons.prems by (simp add: update_in_progress)
    show ?thesis
      using False Cons.IH [OF el] Cons.prems
      by (simp add: onmessage_chunk update_in_progress set_bubble_twice
               del: concat_eq_Nil_conv)
  qed
qed

lemma deliver_chunks_fresh:
  "streamingMessageEl s = None \<Longrightarrow> concat cs \<noteq> [] \<Longrightarrow>
   deliver (map chunk_frame cs) s =
     s\<lparr>streamingMessageEl := Some (length (messages s)),
       streamingText := concat cs,
       messages := messages s @ [\<lparr>m_kind = Assistant, m_text = concat cs\<rparr>]\<rparr>"
proof (induction cs arbitrary: s)
  case Nil
  then show ?case by simp
next
  case (Cons c cs)
  show ?case
  proof (cases "c = []")
    case True
    then show ?thesis using Cons by (simp add: onmessage_chunk)
  next
    case False
    have el: "streamingMessageEl (updateStreamingMessage c s) = Some (length (messages s))"
      using Cons.prems by (simp add: update_fresh)
    show ?thesis
      using False Cons.prems deliver_chunks_in_progress [OF el, of cs]
      by (simp add: onmessage_chunk update_fresh set_bubble_def del: concat_eq_Nil_conv)
  qed
qed

lemma deliver_append: "deliver (xs @ ys) s = deliver ys (deliver xs s)"
  by (induction xs arbitrary: s) simp_all

lemma deliver_chunks_empty: "concat cs = [] \<Longrightarrow> deliver (map chunk_frame cs) s = s"
  by (induction cs arbitrary: s) (simp_all add: onmessage_chunk)

text \<open>
  C2, as the scripts have it. Let chunk frames arrive while no reply is streaming,
  followed by a \<^verbatim>\<open>{done: true}\<close> frame. If at least one chunk is a non-empty string,
  one assistant element has been appended to the log and its text is the concatenation
  of the chunks in arrival order; \<^verbatim>\<open>speak\<close> has been called once, with that text (the
  engine is cancelled and the text spoken when the browser has speech synthesis, nothing
  otherwise); the last-response cache is that text; the streaming buffer is empty and no
  element is streaming. If every chunk is the empty string, the frames only hide the
  typing indicator: nothing is rendered, nothing is spoken, and the cache and the buffer
  are as they were.
\<close>

theorem chunks_then_done:
  assumes "streamingMessageEl s = None"
  shows "(concat cs \<noteq> [] \<longrightarrow>
           (let s' = deliver (map chunk_frame cs @ [done_frame]) s in
            messages s' = messages s @ [\<lparr>m_kind = Assistant, m_text = concat cs\<rparr>] \<and>
            effects s' = effects s @
              (if synthSupported s
               then [SynthCancel,
                     SynthSpeak (concat cs) (if speakSlowly s then Rate_0_7 else Rate_0_9)]
               else []) \<and>
            lastResponse s' = concat cs \<and>
            streamingText s' = [] \<and>
            streamingMessageEl s' = None)) \<and>
         (concat cs = [] \<longrightarrow>
           (let s' = deliver (map chunk_frame cs @ [done_frame]) s in
            s' = s\<lparr>typingHidden := True\<rparr> \<and>
            messages s' = messages s \<and>
            effects s' = effects s \<and>
            lastResponse s' = lastResponse s \<and>
            streamingText s' = streamingText s \<and>
            streamingMessageEl s' = None))"
proof (cases "concat cs = []")
  case True
  then show ?thesis
    using assms
    by (simp add: deliver_append deliver_chunks_empty onmessage_done finishStreamingMessage_def
        Let_def del: concat_eq_Nil_conv)
next
  case False
  then show ?thesis
    using assms
    by (simp add: deliver_append deliver_chunks_fresh onmessage_done finishStreamingMessage_def
        speak_def emit_def Let_def del: concat_eq_Nil_conv)
qed

theorem chunks_then_done_witness:
  "streamingMessageEl page = None \<and>
   concat [''Hel'', [], ''lo''] \<noteq> [] \<and>
   messages (deliver (map chunk_frame [''Hel'', [], ''lo''] @ [done_frame]) page) =
     [\<lparr>m_kind = Assistant, m_text = ''Hello''\<rparr>] \<and>
   effects (deliver (map chunk_frame [''Hel'', [], ''lo''] @ [done_frame]) page) =
     [SynthCancel, SynthSpeak ''Hello'' Rate_0_9] \<and>
   lastResponse (deliver (map chunk_frame [''Hel'', [], ''lo''] @ [done_frame]) page) = ''Hello'' \<and>
   streamingText (deliver (map chunk_frame [''Hel'', [], ''lo''] @ [done_frame]) page) = [] \<and>
   concat [[], []] = ([] :: string) \<and>
   deliver (map chunk_frame [[], []] @ [done_frame]) page = page\<lparr>typingHidden := True\<rparr> \<and>
   effects (deliver (map chunk_frame [[], []] @ [done_frame]) page) = [] \<and>
   messages (deliver (map chunk_frame [[], []] @ [done_frame]) page) = []"
proof -
  have a: "streamingMessageEl page = None" by (simp add: page_def)
  have p: "effects page = [] \<and> messages page = [] \<and> synthSupported page \<and> \<not> speakSlowly page"
    by (simp add: page_def)
  have b: "concat [''Hel'', [], ''lo''] \<noteq> [] \<and> concat [''Hel'', [], ''lo''] = ''Hello''"
    by simp
  have c: "concat [[], []] = ([] :: string)" by simp
  have 1: "messages (deliver (map chunk_frame [''Hel'', [], ''lo''] @ [done_frame]) page) =
     [\<lparr>m_kind = Assistant, m_text = ''Hello''\<rparr>] \<and>
   effects (deliver (map chunk_frame [''Hel'', [], ''lo''] @ [done_frame]) page) =
     [SynthCancel, SynthSpeak ''Hello'' Rate_0_9] \<and>
   lastResponse (deliver (map chunk_frame [''Hel'', [], ''lo''] @ [done_frame]) page) = ''Hello'' \<and>
   streamingText (deliver (map chunk_frame [''Hel'', [], ''lo''] @ [done_frame]) page) = []"
    using chunks_then_done [OF a, of "[''Hel'', [], ''lo'']"] b p
    by (simp add: Let_def del: deliver.simps)
  have 2: "deliver (map chunk_frame [[], []] @ [done_frame]) page = page\<lparr>typingHidden := True\<rparr> \<and>
   effects (deliver (map chunk_frame [[], []] @ [done_frame]) page) = [] \<and>
   messages (deliver (map chunk_frame [[], []] @ [done_frame]) page) = []"
    using chunks_then_done [OF a, of "[[], []]"] c p
    by (simp add: Let_def del: deliver.simps)
  show ?thesis using a b c 1 2 by blast
qed


text \<open>
  The claim as stated fails when every chunk of the sequence is the empty string: the
  test \<^verbatim>\<open>if (data.chunk)\<close> skips them, no element is streaming when \<^verbatim>\<open>done\<close> arrives, and
  \<^verbatim>\<open>finishStreamingMessage\<close> then neither speaks nor writes the cache. After a first
  reply "Hi", the frames \<^verbatim>\<open>{chunk: ""}\<close>, \<^verbatim>\<open>{done: true}\<close> leave the cache at "Hi", which is
  not the concatenation of the chunks, and nothing is spoken or rendered.
\<close>

theorem chunks_then_done_counterexample:
  "streamingMessageEl (deliver [chunk_frame ''Hi'', done_frame] page) = None \<and>
   lastResponse
     (deliver (map chunk_frame [[]] @ [done_frame])
        (deliver [chunk_frame ''Hi'', done_frame] page)) = ''Hi'' \<and>
   lastResponse
     (deliver (map chunk_frame [[]] @ [done_frame])
        (deliver [chunk_frame ''Hi'', done_frame] page)) \<noteq> concat [[]] \<and>
   effects
     (deliver (map chunk_frame [[]] @ [done_frame])
        (deliver [chunk_frame ''Hi'', done_frame] page)) =
     effects (deliver [chunk_frame ''Hi'', done_frame] page) \<and>
   messages
     (deliver (map chunk_frame [[]] @ [done_frame])
        (deliver [chunk_frame ''Hi'', done_frame] page)) =
     messages (deliver [chunk_frame ''Hi'', done_frame] page)"
  by (simp add: onmessage_chunk onmessage_done update_fresh finishStreamingMessage_def
      speak_def emit_def page_def)

subsection \<open>The restart counter\<close>

lemma step_restartAttempts:
  "restartAttempts s \<le> MAX_RESTART_ATTEMPTS \<Longrightarrow> restartAttempts (step e s) \<le> MAX_RESTART_ATTEMPTS"
  by (cases e)
     (auto simp: basic_defs handler_defs Let_def MAX_RESTART_ATTEMPTS_def
           split: option.splits http_result.splits pending.splits timer.splits if_splits sum.splits
                  prod.splits)

lemma reachable_restartAttempts: "reachable s \<Longrightarrow> restartAttempts s \<le> MAX_RESTART_ATTEMPTS"
proof (induction rule: reachable.induct)
  case (reachable_init s)
  then show ?case by (simp add: loaded_def init_def initSpeechRecognition_def)
next
  case (reachable_step s e)
  then show ?case by (simp add: step_restartAttempts)
qed

text \<open>
  C3. In every state the continuous variant can reach, the restart counter is at most 3.
  When the recognition end event fires with the counter at 3, the listener takes the
  branch of \<^verbatim>\<open>stopRecording\<close>: recording is idle afterwards, the counter is back at 0,
  no restart timer has been added, and the only calls made are the engine's \<^verbatim>\<open>stop\<close>
  and \<^verbatim>\<open>abort\<close>.
\<close>

theorem restart_counter_bounded:
  assumes "reachable s"
  shows "restartAttempts s \<le> 3 \<and>
         (restartAttempts s = 3 \<longrightarrow>
            recognition_onend s = stopRecording s \<and>
            \<not> isRecording (recognition_onend s) \<and>
            restartAttempts (recognition_onend s) = 0 \<and>
            set (timers (recognition_onend s)) \<subseteq> set (timers s) \<and>
            effects (recognition_onend s) =
              effects s @ (if recognition s then [RecStop, RecAbort] else []))"
proof -
  have bound: "restartAttempts s \<le> 3"
    using reachable_restartAttempts [OF assms] by (simp add: MAX_RESTART_ATTEMPTS_def)
  have forced: "recognition_onend s = stopRecording s" if "restartAttempts s = 3"
    using that by (simp add: recognition_onend_def MAX_RESTART_ATTEMPTS_def)
  have idle: "\<not> isRecording (stopRecording s) \<and> restartAttempts (stopRecording s) = 0 \<and>
      set (timers (stopRecording s)) \<subseteq> set (timers s) \<and>
      effects (stopRecording s) = effects s @ (if recognition s then [RecStop, RecAbort] else [])"
    by (auto simp: stopRecording_def clearTimeout_def emit_def Let_def split: option.splits)
  show ?thesis using bound forced idle by simp
qed

theorem restart_counter_bounded_witness:
  "restartAttempts (run [Rec_start, Rec_end, Rec_end, Rec_end] (init page)) = 3 \<and>
   isRecording (run [Rec_start, Rec_end, Rec_end, Rec_end] (init page)) \<and>
   \<not> isRecording (recognition_onend (run [Rec_start, Rec_end, Rec_end, Rec_end] (init page))) \<and>
   restartAttempts (recognition_onend (run [Rec_start, Rec_end, Rec_end, Rec_end] (init page))) = 0"
proof -
  have r: "reachable (run [Rec_start, Rec_end, Rec_end, Rec_end] (init page))"
    by (rule reachable_run, rule reachable_init, rule loaded_page)
  have v: "restartAttempts (run [Rec_start, Rec_end, Rec_end, Rec_end] (init page)) = 3 \<and>
       isRecording (run [Rec_start, Rec_end, Rec_end, Rec_end] (init page))"
    by (simp add: page_def init_def basic_defs handler_defs Let_def MAX_RESTART_ATTEMPTS_def)
  show ?thesis using restart_counter_bounded [OF r] v by blast
qed

subsection \<open>The safety timer\<close>



lemma sendMessage_dispatch:
  assumes "trim t \<noteq> []"
  shows "\<exists>j. dispatched (sendMessage t s) = dispatched s @ [j] \<and> message_of j = Some t"
  using assms
  by (simp add: sendMessage_def Let_def fetch_def emit_def dispatched_def showMessage_def send_body_def)

lemma stopRecording_frame:
  "dispatched (stopRecording s) = dispatched s \<and> messages (stopRecording s) = messages s \<and>
   inputValue (stopRecording s) = inputValue s \<and> \<not> isRecording (stopRecording s) \<and>
   recordingTimeout (stopRecording s) = None"
  by (simp add: stopRecording_def clearTimeout_def emit_def dispatched_def Let_def split: option.splits)

lemma sendMessage_isRecording: "isRecording (sendMessage t s) = isRecording s"
  by (simp add: sendMessage_def Let_def fetch_def emit_def showMessage_def)








subsection \<open>Starting a session\<close>

lemma run_startSession:
  "run [Click_start, Http_chat (length (inflight s)) r] s =
     startSession_cont r (emit (Fetch chat_url (JObj [(''message'', JStr ''Hello'')])) s)"
  by (simp add: startSession_def fetch_def emit_def settle_def)

lemma app_run_startSession:
  "app_run [Click_start, Http_chat (length (inflight s)) r] s =
     app_startSession_cont r (emit (Fetch chat_url (JObj [(''message'', JStr ''Hello'')])) s)"
  by (simp add: startSession_def fetch_def emit_def settle_def)

text \<open>What \<^verbatim>\<open>startSession\<close> does on every path: one request, and only then, for a body
  that parses and an identifier the constructor accepts, the socket.\<close>

lemma startSession_cont_effects:
  "effects (startSession_cont r t) =
     effects t @
       (case r of
          Rejected \<Rightarrow> [Alert ''Could not connect to the service. Please try again later.'']
        | Replied ok None \<Rightarrow>
            [Alert ''Could not connect to the service. Please try again later.'']
        | Replied ok (Some d) \<Rightarrow>
            (if socket t = None then [] else [WsClose]) @
            (if valid_ws_url (WS_URL @ ''/'' @ r_session_id d)
             then [WsNew (WS_URL @ ''/'' @ r_session_id d)] @
                  (if synthSupported t
                   then [SynthCancel,
                         SynthSpeak (r_response d)
                           (if speakSlowly t then Rate_0_7 else Rate_0_9)]
                   else [])
             else [Alert ''Could not connect to the service. Please try again later.'']))"
  by (simp add: startSession_cont_def connectWebSocket_def sessionId_text_def basic_defs Let_def
      split: http_result.splits option.splits)

lemma app_startSession_cont_effects:
  "effects (app_startSession_cont r t) =
     effects t @
       (case r of
          Rejected \<Rightarrow> [Alert ''Could not connect. Please try again.'']
        | Replied ok None \<Rightarrow> [Alert ''Could not connect. Please try again.'']
        | Replied ok (Some d) \<Rightarrow>
            (if socket t = None then [] else [WsClose]) @
            (if valid_ws_url (WS_URL @ ''/'' @ r_session_id d)
             then [WsNew (WS_URL @ ''/'' @ r_session_id d)] @
                  (if synthSupported t
                   then [SynthCancel,
                         SynthSpeak (r_response d)
                           (if speakSlowly t then Rate_0_7 else Rate_0_9)]
                   else [])
             else [Alert ''Could not connect. Please try again.'']))"
  by (simp add: app_startSession_cont_def connectWebSocket_def sessionId_text_def basic_defs
      Let_def split: http_result.splits option.splits)

lemma startSession_sync:
  "startSession s =
     (emit (Fetch chat_url (JObj [(''message'', JStr ''Hello'')])) s)
       \<lparr>inflight := inflight s @ [PendStart]\<rparr>"
  by (simp add: startSession_def fetch_def)

text \<open>
  C4. \<^verbatim>\<open>startSession\<close> does issue exactly one request, with the greeting, before any
  socket is opened, and opens none when the fetch rejects, the body does not parse or the
  constructor raises. But it does not test \<^verbatim>\<open>response.ok\<close>, which \<^verbatim>\<open>sendMessage\<close> does:
  for a response that is not ok and whose body parses (here status 500 with the body
  \<^verbatim>\<open>{session_id: "X", response: "oops"}\<close>) both scripts store the identifier, open the
  socket on it and show and speak the text, where \<^verbatim>\<open>sendMessage\<close> on the same response
  shows its error message and leaves the identifier alone.
\<close>

theorem startSession_not_ok_opens_socket:
  "effects (run [Click_start,
       Http_chat 0 (Replied False (Some \<lparr>r_session_id = ''X'', r_response = ''oops''\<rparr>))] page) =
     [Fetch ''http://localhost:8000/chat'' (JObj [(''message'', JStr ''Hello'')]),
      WsNew ''ws://localhost:8000/ws/X'', SynthCancel, SynthSpeak ''oops'' Rate_0_9] \<and>
   socket (run [Click_start,
       Http_chat 0 (Replied False (Some \<lparr>r_session_id = ''X'', r_response = ''oops''\<rparr>))] page) =
     Some \<lparr>ws_url = ''ws://localhost:8000/ws/X'', readyState = CONNECTING\<rparr> \<and>
   sessionId (run [Click_start,
       Http_chat 0 (Replied False (Some \<lparr>r_session_id = ''X'', r_response = ''oops''\<rparr>))] page) =
     Some ''X'' \<and>
   socket (app_run [Click_start,
       Http_chat 0 (Replied False (Some \<lparr>r_session_id = ''X'', r_response = ''oops''\<rparr>))] page) =
     Some \<lparr>ws_url = ''ws://localhost:8000/ws/X'', readyState = CONNECTING\<rparr> \<and>
   sessionId (sendMessage_cont
       (Replied False (Some \<lparr>r_session_id = ''X'', r_response = ''oops''\<rparr>)) page) = None \<and>
   messages (sendMessage_cont
       (Replied False (Some \<lparr>r_session_id = ''X'', r_response = ''oops''\<rparr>)) page) =
     [\<lparr>m_kind = Error, m_text = ''Sorry, I had trouble connecting. Please try again.''\<rparr>] \<and>
   effects (sendMessage_cont
       (Replied False (Some \<lparr>r_session_id = ''X'', r_response = ''oops''\<rparr>)) page) = []"
  by (simp add: page_def basic_defs handler_defs app_defs const_defs Let_def)

subsection \<open>Recognition errors\<close>

text \<open>
  C6, as the scripts have it. In the continuous variant the error codes
  \<^verbatim>\<open>not-allowed\<close> and \<^verbatim>\<open>network\<close> stop the recording (flag false, counter 0, timer
  handle cleared); every other code leaves the whole state as it was, so the next end
  event is handled as if no error had occurred and the bounded restart policy applies.
  In the single-shot variant every error code stops the recording.
\<close>

theorem recognition_onerror_codes:
  "(if code = ''not-allowed'' \<or> code = ''network''
    then \<not> isRecording (recognition_onerror code s) \<and>
         restartAttempts (recognition_onerror code s) = 0 \<and>
         recordingTimeout (recognition_onerror code s) = None
    else recognition_onerror code s = s \<and>
         recognition_onend (recognition_onerror code s) = recognition_onend s) \<and>
   \<not> isRecording (app_recognition_onerror code s)"
  by (simp add: recognition_onerror_def stopRecording_def showMessage_def clearTimeout_def
      emit_def app_recognition_onerror_def app_stopRecording_def Let_def split: option.splits)

text \<open>
  The claim as stated fails for \<^verbatim>\<open>app.js\<close>, whose error listener calls
  \<^verbatim>\<open>stopRecording\<close> whatever the code: the code \<^verbatim>\<open>no-speech\<close> ends an active recording.
\<close>

theorem recognition_onerror_codes_counterexample:
  "isRecording (app_run [Rec_start] (app_init page)) \<and>
   \<not> isRecording (app_run [Rec_start, Rec_error ''no-speech''] (app_init page))"
  by (simp add: page_def app_init_def app_defs emit_def Let_def)

subsection \<open>Stopping the recording\<close>

text \<open>
  C9. After \<^verbatim>\<open>stopRecording\<close>, from any state, the recording flag is false, the restart
  counter is 0, the stored timer handle is \<^verbatim>\<open>null\<close> and the timer it named is no longer
  pending. A second call changes nothing of the state: it only repeats the calls to the
  engine's \<^verbatim>\<open>stop\<close> and \<^verbatim>\<open>abort\<close> when the recognition object exists. The
  \<^verbatim>\<open>stopRecording\<close> of \<^verbatim>\<open>app.js\<close>, which has neither counter nor timer, likewise sets
  the flag to false and is idempotent up to the repeated call of \<^verbatim>\<open>stop\<close>.
\<close>

theorem stopRecording_idempotent:
  "\<not> isRecording (stopRecording s) \<and>
   restartAttempts (stopRecording s) = 0 \<and>
   recordingTimeout (stopRecording s) = None \<and>
   timers (stopRecording s) =
     (case recordingTimeout s of
        None \<Rightarrow> timers s
      | Some h \<Rightarrow> filter (\<lambda>(i, k). i \<noteq> h) (timers s)) \<and>
   stopRecording (stopRecording s) =
     (stopRecording s)\<lparr>effects := effects (stopRecording s) @
        (if recognition s then [RecStop, RecAbort] else [])\<rparr> \<and>
   \<not> isRecording (app_stopRecording s) \<and>
   app_stopRecording (app_stopRecording s) =
     (app_stopRecording s)\<lparr>effects := effects (app_stopRecording s) @
        (if recognition s then [RecStop] else [])\<rparr>"
  by (simp add: stopRecording_def clearTimeout_def emit_def app_stopRecording_def Let_def
      split: option.splits)

subsection \<open>The microphone button\<close>

lemma app_onend_dispatch:
  "(if trim (inputValue t) = []
    then dispatched (app_recognition_onend t) = dispatched t \<and>
         messages (app_recognition_onend t) = messages t
    else (\<exists>j. dispatched (app_recognition_onend t) = dispatched t @ [j] \<and>
              message_of j = Some (trim (inputValue t))))"
proof (cases "trim (inputValue t) = []")
  case True
  then show ?thesis
    by (simp add: app_recognition_onend_def app_stopRecording_def emit_def dispatched_def Let_def)
next
  case False
  then have tt: "trim (trim (inputValue t)) \<noteq> []" by (simp add: trim_idem)
  have st: "dispatched (app_stopRecording t) = dispatched t \<and>
            inputValue (app_stopRecording t) = inputValue t"
    by (simp add: app_stopRecording_def emit_def dispatched_def Let_def)
  show ?thesis
    using False st sendMessage_dispatch [OF tt, of "app_stopRecording t"]
    by (simp add: app_recognition_onend_def Let_def)
qed

text \<open>
  C8, as the scripts have it. A click on the microphone button while recording stops the
  recording. In the continuous variant, when the input buffer is empty after trimming,
  the click calls \<^verbatim>\<open>speak\<close> with the apology (spoken when the browser has speech
  synthesis) and dispatches nothing, adds nothing to the log and leaves no request in
  flight; when the buffer is not empty the trimmed text is dispatched exactly once. In
  the single-shot variant the click only calls \<^verbatim>\<open>stopRecording\<close>: nothing is spoken and
  nothing is added to the log; the text is sent by the end listener (state \<open>t\<close>), once
  when the trimmed buffer is not empty and not at all when it is empty.
\<close>

theorem micBtn_stop:
  assumes "isRecording s"
  shows "(if trim (inputValue s) = []
          then effects (micBtn_click s) =
                 effects s @ (if recognition s then [RecStop, RecAbort] else []) @
                 (if synthSupported s
                  then [SynthCancel,
                        SynthSpeak ''I did not hear anything. Please try speaking again.''
                          (if speakSlowly s then Rate_0_7 else Rate_0_9)]
                  else []) \<and>
               dispatched (micBtn_click s) = dispatched s \<and>
               messages (micBtn_click s) = messages s \<and>
               inflight (micBtn_click s) = inflight s
          else (\<exists>j. dispatched (micBtn_click s) = dispatched s @ [j] \<and>
                    message_of j = Some (trim (inputValue s)))) \<and>
         \<not> isRecording (micBtn_click s) \<and>
         app_micBtn_click s = app_stopRecording s \<and>
         effects (app_micBtn_click s) = effects s @ (if recognition s then [RecStop] else []) \<and>
         messages (app_micBtn_click s) = messages s \<and>
         (if trim (inputValue t) = []
          then dispatched (app_recognition_onend t) = dispatched t \<and>
               messages (app_recognition_onend t) = messages t
          else (\<exists>j. dispatched (app_recognition_onend t) = dispatched t @ [j] \<and>
                    message_of j = Some (trim (inputValue t))))"
proof -
  have app: "app_micBtn_click s = app_stopRecording s \<and>
         effects (app_micBtn_click s) = effects s @ (if recognition s then [RecStop] else []) \<and>
         messages (app_micBtn_click s) = messages s"
    using assms by (simp add: app_micBtn_click_def app_stopRecording_def emit_def Let_def)
  have idle: "\<not> isRecording (micBtn_click s)"
    using assms stopRecording_frame [of s]
    by (simp add: micBtn_click_def Let_def sendMessage_isRecording speak_def emit_def)
  have cont: "(if trim (inputValue s) = []
          then effects (micBtn_click s) =
                 effects s @ (if recognition s then [RecStop, RecAbort] else []) @
                 (if synthSupported s
                  then [SynthCancel,
                        SynthSpeak ''I did not hear anything. Please try speaking again.''
                          (if speakSlowly s then Rate_0_7 else Rate_0_9)]
                  else []) \<and>
               dispatched (micBtn_click s) = dispatched s \<and>
               messages (micBtn_click s) = messages s \<and>
               inflight (micBtn_click s) = inflight s
          else (\<exists>j. dispatched (micBtn_click s) = dispatched s @ [j] \<and>
                    message_of j = Some (trim (inputValue s))))"
  proof (cases "trim (inputValue s) = []")
    case True
    then show ?thesis using assms
      by (simp add: micBtn_click_def Let_def stopRecording_def clearTimeout_def speak_def
          emit_def dispatched_def split: option.splits)
  next
    case False
    then have tt: "trim (trim (inputValue s)) \<noteq> []" by (simp add: trim_idem)
    show ?thesis
      using assms False stopRecording_frame [of s]
        sendMessage_dispatch [OF tt, of "stopRecording s"]
      by (simp add: micBtn_click_def Let_def)
  qed
  show ?thesis using app idle cont app_onend_dispatch [of t] by blast
qed

text \<open>
  The claim as stated fails for \<^verbatim>\<open>app.js\<close>: stopping a recording that captured nothing
  speaks no apology, neither at the click nor at the end event that follows, although
  speech synthesis is available. The only calls made are the two \<^verbatim>\<open>recognition.stop()\<close>.
\<close>

theorem micBtn_stop_counterexample:
  "isRecording (app_run [Rec_start] (app_init page)) \<and>
   trim (inputValue (app_run [Rec_start] (app_init page))) = [] \<and>
   synthSupported (app_run [Rec_start] (app_init page)) \<and>
   effects (app_run [Rec_start] (app_init page)) = [] \<and>
   effects (app_run [Click_mic, Rec_end] (app_run [Rec_start] (app_init page))) =
     [RecStop, RecStop]"
  by (simp add: page_def app_init_def app_defs emit_def Let_def trim_def)


theorem micBtn_stop_witness:
  "isRecording (run [Rec_start] (init page)) \<and>
   trim (inputValue (run [Rec_start] (init page))) = [] \<and>
   effects (micBtn_click (run [Rec_start] (init page))) =
     [RecStop, RecAbort, SynthCancel,
      SynthSpeak ''I did not hear anything. Please try speaking again.'' Rate_0_9] \<and>
   dispatched (micBtn_click (run [Rec_start] (init page))) = [] \<and>
   isRecording (run [Rec_start, Input_typed '' hi ''] (init page)) \<and>
   (\<exists>j. dispatched (micBtn_click (run [Rec_start, Input_typed '' hi ''] (init page))) = [j] \<and>
        message_of j = Some ''hi'')"
proof -
  let ?e = "run [Rec_start] (init page)"
  let ?t = "run [Rec_start, Input_typed '' hi ''] (init page)"
  have e: "isRecording ?e \<and> trim (inputValue ?e) = [] \<and> effects ?e = [] \<and>
           dispatched ?e = [] \<and> recognition ?e \<and> synthSupported ?e \<and> \<not> speakSlowly ?e"
    by (simp add: page_def init_def basic_defs handler_defs Let_def trim_def dispatched_def)
  have t: "isRecording ?t \<and> trim (inputValue ?t) = ''hi'' \<and> dispatched ?t = []"
    by (simp add: page_def init_def basic_defs handler_defs Let_def trim_def is_space_def
        dispatched_def)
  have re: "isRecording ?e" using e by blast
  have rt: "isRecording ?t" using t by blast
  have a: "effects (micBtn_click ?e) =
     [RecStop, RecAbort, SynthCancel,
      SynthSpeak ''I did not hear anything. Please try speaking again.'' Rate_0_9] \<and>
     dispatched (micBtn_click ?e) = []"
    using micBtn_stop [OF re, of ?e] e by (simp del: run.simps)
  have b: "\<exists>j. dispatched (micBtn_click ?t) = [j] \<and> message_of j = Some ''hi''"
    using micBtn_stop [OF rt, of ?t] t by (simp del: run.simps)
  show ?thesis using e t a b by blast
qed

subsection \<open>The session identifier\<close>

lemma step_sessionId:
  "sessionId (step e s) = sessionId s \<or>
   (\<exists>i ok d. e = Http_chat i (Replied ok (Some d)) \<and> sessionId (step e s) = Some (r_session_id d))"
  by (cases e)
     (auto simp: basic_defs handler_defs Let_def
           split: option.splits http_result.splits pending.splits timer.splits if_splits sum.splits
                  prod.splits)

lemma app_step_sessionId:
  "sessionId (app_step e s) = sessionId s \<or>
   (\<exists>i ok d. e = Http_chat i (Replied ok (Some d)) \<and>
      sessionId (app_step e s) = Some (r_session_id d))"
  by (cases e)
     (auto simp: basic_defs handler_defs app_defs Let_def
           split: option.splits http_result.splits pending.splits timer.splits if_splits sum.splits
                  prod.splits)

lemma connectWebSocket_path:
  "(case connectWebSocket s of
      Inl (err, t) \<Rightarrow>
        \<not> valid_ws_url (WS_URL @ ''/'' @ (case sessionId s of None \<Rightarrow> ''null'' | Some i \<Rightarrow> i)) \<and>
        effects t = effects s @ (if socket s = None then [] else [WsClose])
    | Inr t \<Rightarrow>
        effects t =
          effects s @ (if socket s = None then [] else [WsClose]) @
          [WsNew (WS_URL @ ''/'' @ (case sessionId s of None \<Rightarrow> ''null'' | Some i \<Rightarrow> i))] \<and>
        socket t =
          Some \<lparr>ws_url = WS_URL @ ''/'' @ (case sessionId s of None \<Rightarrow> ''null'' | Some i \<Rightarrow> i),
                readyState = CONNECTING\<rparr>)"
  by (simp add: connectWebSocket_def basic_defs sessionId_text_def Let_def split: option.splits)

lemma failed_send_sessionId:
  "sessionId (sendMessage_cont Rejected s) = sessionId s \<and>
   sessionId (sendMessage_cont (Replied False b) s) = sessionId s \<and>
   sessionId (sendMessage_cont (Replied ok None) s) = sessionId s \<and>
   sessionId (app_sendMessage_cont Rejected s) = sessionId s \<and>
   sessionId (app_sendMessage_cont (Replied False b) s) = sessionId s \<and>
   sessionId (app_sendMessage_cont (Replied ok None) s) = sessionId s"
  by (simp add: sendMessage_cont_def app_sendMessage_cont_def showMessage_def Let_def)


text \<open>
  C7, as the scripts have it. An event changes the session identifier only if it is the
  result of a chat request with a body that parses (the continuation of
  \<^verbatim>\<open>startSession\<close>, or of the HTTP fallback of \<^verbatim>\<open>sendMessage\<close>), and the identifier is
  then the one in that body; every other event leaves it as it was, and so does a response
  that carries the identifier the page already holds. The HTTP fallback of
  \<^verbatim>\<open>sendMessage\<close> sends the current identifier as \<^verbatim>\<open>session_id\<close>, and the paths of the
  WebSocket (whose constructor raises only for a path it rejects) and of the human-help
  request are built from the current identifier. A send that fails (the fetch rejects,
  the response is not ok, or the body does not parse) leaves the identifier as it was.
  Both scripts.
\<close>

theorem sessionId_set_by_chat_replies_only:
  "(sessionId (step e s) = sessionId s \<or>
    (\<exists>i ok d. e = Http_chat i (Replied ok (Some d)) \<and>
       sessionId (step e s) = Some (r_session_id d))) \<and>
   (sessionId (app_step e s) = sessionId s \<or>
    (\<exists>i ok d. e = Http_chat i (Replied ok (Some d)) \<and>
       sessionId (app_step e s) = Some (r_session_id d))) \<and>
   ((\<forall>i ok d. e = Http_chat i (Replied ok (Some d)) \<longrightarrow>
        sessionId s = Some (r_session_id d)) \<longrightarrow>
      sessionId (step e s) = sessionId s \<and> sessionId (app_step e s) = sessionId s) \<and>
   (trim text \<noteq> [] \<and> \<not> socket_open s \<longrightarrow>
         effects (sendMessage text s) =
           effects s @
           [Fetch chat_url
              (JObj [(''message'', JStr text),
                     (''session_id'', (case sessionId s of None \<Rightarrow> JNull | Some i \<Rightarrow> JStr i)),
                     (''speak_slowly'', JBool (speakSlowly s))])]) \<and>
   (case connectWebSocket s of
      Inl (err, t) \<Rightarrow>
        \<not> valid_ws_url (WS_URL @ ''/'' @ (case sessionId s of None \<Rightarrow> ''null'' | Some i \<Rightarrow> i)) \<and>
        effects t = effects s @ (if socket s = None then [] else [WsClose])
    | Inr t \<Rightarrow>
        effects t =
          effects s @ (if socket s = None then [] else [WsClose]) @
          [WsNew (WS_URL @ ''/'' @ (case sessionId s of None \<Rightarrow> ''null'' | Some i \<Rightarrow> i))] \<and>
        socket t =
          Some \<lparr>ws_url = WS_URL @ ''/'' @ (case sessionId s of None \<Rightarrow> ''null'' | Some i \<Rightarrow> i),
                readyState = CONNECTING\<rparr>) \<and>
   effects (requestHumanHelp s) =
     effects s @
     [Fetch (API_URL @ ''/session/'' @ (case sessionId s of None \<Rightarrow> ''null'' | Some i \<Rightarrow> i) @
             ''/human-help'')
        (JObj [(''phone'', JStr (trim (phoneValue s)))])] \<and>
   sessionId (sendMessage_cont Rejected s) = sessionId s \<and>
   sessionId (sendMessage_cont (Replied False b) s) = sessionId s \<and>
   sessionId (sendMessage_cont (Replied ok None) s) = sessionId s \<and>
   sessionId (app_sendMessage_cont Rejected s) = sessionId s \<and>
   sessionId (app_sendMessage_cont (Replied False b) s) = sessionId s \<and>
   sessionId (app_sendMessage_cont (Replied ok None) s) = sessionId s"
proof -
  have send: "(trim text \<noteq> [] \<and> \<not> socket_open s \<longrightarrow>
         effects (sendMessage text s) =
           effects s @
           [Fetch chat_url
              (JObj [(''message'', JStr text),
                     (''session_id'', (case sessionId s of None \<Rightarrow> JNull | Some i \<Rightarrow> JStr i)),
                     (''speak_slowly'', JBool (speakSlowly s))])])"
    by (simp add: sendMessage_def Let_def fetch_def emit_def showMessage_def send_body_def
        socket_open_def)
  note ws = connectWebSocket_path [of s]
  note failed = failed_send_sessionId [of s b ok]
  have hfetch: "effects (requestHumanHelp s) =
     effects s @
     [Fetch (API_URL @ ''/session/'' @ (case sessionId s of None \<Rightarrow> ''null'' | Some i \<Rightarrow> i) @
             ''/human-help'')
        (JObj [(''phone'', JStr (trim (phoneValue s)))])]"
    by (simp add: requestHumanHelp_def fetch_def emit_def sessionId_text_def Let_def)
  have echo: "(\<forall>i ok d. e = Http_chat i (Replied ok (Some d)) \<longrightarrow>
        sessionId s = Some (r_session_id d)) \<longrightarrow>
      sessionId (step e s) = sessionId s \<and> sessionId (app_step e s) = sessionId s"
    using step_sessionId [of e s] app_step_sessionId [of e s] by metis
  show ?thesis
    using step_sessionId [of e s] app_step_sessionId [of e s] echo send ws hfetch failed
    by blast
qed

theorem sessionId_set_by_chat_replies_only_witness:
  "\<not> socket_open (run [Click_start,
       Http_chat 0 (Replied True (Some \<lparr>r_session_id = ''A'', r_response = ''Hello''\<rparr>))]
     (init page)) \<and>
   trim ''hi'' \<noteq> [] \<and>
   effects (sendMessage ''hi'' (run [Click_start,
       Http_chat 0 (Replied True (Some \<lparr>r_session_id = ''A'', r_response = ''Hello''\<rparr>))]
     (init page))) =
     [Fetch ''http://localhost:8000/chat'' (JObj [(''message'', JStr ''Hello'')]),
      WsNew ''ws://localhost:8000/ws/A'', SynthCancel, SynthSpeak ''Hello'' Rate_0_9,
      Fetch ''http://localhost:8000/chat''
        (JObj [(''message'', JStr ''hi''), (''session_id'', JStr ''A''),
               (''speak_slowly'', JBool False)])] \<and>
   sessionId (run [Click_start,
       Http_chat 0 (Replied True (Some \<lparr>r_session_id = ''A'', r_response = ''Hello''\<rparr>))]
     (init page)) = Some ''A'' \<and>
   sessionId (step (Http_chat 0 (Replied True (Some \<lparr>r_session_id = ''A'', r_response = ''Hi''\<rparr>)))
     (sendMessage ''hi'' (run [Click_start,
       Http_chat 0 (Replied True (Some \<lparr>r_session_id = ''A'', r_response = ''Hello''\<rparr>))]
     (init page)))) = Some ''A''"
proof -
  let ?s = "run [Click_start,
       Http_chat 0 (Replied True (Some \<lparr>r_session_id = ''A'', r_response = ''Hello''\<rparr>))]
     (init page)"
  have v: "\<not> socket_open ?s \<and> sessionId ?s = Some ''A'' \<and> \<not> speakSlowly ?s \<and>
      effects ?s =
        [Fetch ''http://localhost:8000/chat'' (JObj [(''message'', JStr ''Hello'')]),
         WsNew ''ws://localhost:8000/ws/A'', SynthCancel, SynthSpeak ''Hello'' Rate_0_9]"
    by (simp add: page_def init_def basic_defs handler_defs const_defs Let_def)
  have w: "trim ''hi'' \<noteq> []"
    by (simp add: trim_def is_space_def)
  have x: "effects (sendMessage ''hi'' ?s) =
     [Fetch ''http://localhost:8000/chat'' (JObj [(''message'', JStr ''Hello'')]),
      WsNew ''ws://localhost:8000/ws/A'', SynthCancel, SynthSpeak ''Hello'' Rate_0_9,
      Fetch ''http://localhost:8000/chat''
        (JObj [(''message'', JStr ''hi''), (''session_id'', JStr ''A''),
               (''speak_slowly'', JBool False)])]"
    using v w sessionId_set_by_chat_replies_only [of Ws_open ?s "''hi''"]
    by (simp add: chat_url_def API_URL_def del: run.simps step.simps app_step.simps)
  have y: "sessionId (sendMessage ''hi'' ?s) = Some ''A''"
    using v by (simp add: sendMessage_def fetch_def emit_def showMessage_def Let_def
        del: run.simps)
  have z: "sessionId (step (Http_chat 0
        (Replied True (Some \<lparr>r_session_id = ''A'', r_response = ''Hi''\<rparr>)))
      (sendMessage ''hi'' ?s)) = sessionId (sendMessage ''hi'' ?s)"
    using y sessionId_set_by_chat_replies_only
      [of "Http_chat 0 (Replied True (Some \<lparr>r_session_id = ''A'', r_response = ''Hi''\<rparr>))"
          "sendMessage ''hi'' ?s" "''hi''"]
    by (simp del: run.simps step.simps app_step.simps)
  show ?thesis using v w x y z by simp
qed

text \<open>
  The claim as stated fails: the continuation of every successful HTTP send assigns
  \<^verbatim>\<open>sessionId = data.session_id\<close>. After a session started with the identifier "A", a
  message sent by HTTP (the socket is still connecting) whose response carries "B"
  changes the identifier to "B".
\<close>

theorem sessionId_counterexample:
  "sessionId (run [Click_start,
       Http_chat 0 (Replied True (Some \<lparr>r_session_id = ''A'', r_response = ''Hello''\<rparr>))]
     (init page)) = Some ''A'' \<and>
   sessionId (run [Input_typed ''hi'', Click_send,
       Http_chat 0 (Replied True (Some \<lparr>r_session_id = ''B'', r_response = ''Hi''\<rparr>))]
     (run [Click_start,
       Http_chat 0 (Replied True (Some \<lparr>r_session_id = ''A'', r_response = ''Hello''\<rparr>))]
     (init page))) = Some ''B''"
  by (simp add: page_def init_def basic_defs handler_defs const_defs Let_def trim_def is_space_def)

subsection \<open>The last-response cache\<close>

lemma step_lastResponse:
  "lastResponse (step e s) = lastResponse s \<or>
   (\<exists>f. e = Ws_message f \<and> truthy_bool (f_done f) \<and> \<not> truthy_str (f_error f) \<and>
        f_type f \<noteq> Some ''stats'') \<or>
   (\<exists>i ok d. e = Http_chat i (Replied ok (Some d)) \<and> lastResponse (step e s) = r_response d)"
  by (cases e)
     (auto simp: basic_defs handler_defs Let_def
           split: option.splits http_result.splits pending.splits timer.splits if_splits
                  sum.splits prod.splits)

lemma onmessage_lastResponse:
  "\<not> truthy_bool (f_done f) \<or> truthy_str (f_error f) \<or> f_type f = Some ''stats'' \<Longrightarrow>
   lastResponse (socket_onmessage f s) = lastResponse s"
  by (auto simp: socket_onmessage_def updateStreamingMessage_def startStreamingMessage_def
      showMessage_def Let_def split: option.splits)

lemma cont_failure_lastResponse:
  "lastResponse (sendMessage_cont Rejected s) = lastResponse s \<and>
   lastResponse (sendMessage_cont (Replied False b) s) = lastResponse s \<and>
   lastResponse (sendMessage_cont (Replied ok None) s) = lastResponse s \<and>
   lastResponse (startSession_cont Rejected s) = lastResponse s \<and>
   lastResponse (startSession_cont (Replied ok None) s) = lastResponse s \<and>
   lastResponse (requestHumanHelp_cont h s) = lastResponse s"
  by (simp add: sendMessage_cont_def startSession_cont_def requestHumanHelp_cont_def
      hideHumanHelpModal_def showMessage_def speak_def emit_def Let_def
      split: http_result.splits option.splits)

lemma start_lastResponse:
  "lastResponse (startSession_cont (Replied ok (Some d)) s) =
     (if valid_ws_url (WS_URL @ ''/'' @ r_session_id d) then r_response d else lastResponse s)"
  by (simp add: startSession_cont_def connectWebSocket_def sessionId_text_def basic_defs Let_def
      split: option.splits)

lemma send_lastResponse:
  "lastResponse (sendMessage_cont (Replied True (Some d)) s) = r_response d"
  by (simp add: sendMessage_cont_def Let_def)

lemma done_lastResponse:
  "streamingMessageEl s \<noteq> None \<Longrightarrow>
   lastResponse (socket_onmessage done_frame s) = streamingText s"
  by (simp add: onmessage_done finishStreamingMessage_def speak_def emit_def Let_def)

text \<open>
  C10, as the scripts have it. An event of the continuous variant changes the
  last-response cache only if it is a socket frame with a true \<^verbatim>\<open>done\<close> (and neither an
  error nor a stats frame), or the result of a chat request with a body that parses.
  A frame without a true \<^verbatim>\<open>done\<close> (a chunk frame), an error frame, a stats frame, a
  failed send (the fetch rejects, the response is not ok, or the body does not parse), a
  session start that ends in its \<^verbatim>\<open>catch\<close> block (the fetch rejects, the body does not
  parse, or the socket constructor raises) and every result of a human-help request leave
  the cache as it was. An ok response to a send, and an ok response to the session start
  whose socket can be opened, set it to the response text; a \<^verbatim>\<open>done\<close> frame that ends a
  streaming reply sets it to the streamed text. The repeat-playback control calls
  \<^verbatim>\<open>speak\<close> with the cache when the cache is not empty, and with a fixed sentence when
  it is empty. (What a session start does with a response that is not ok is the subject
  of C4 and is not stated here.)
\<close>

theorem lastResponse_written_on_completion_only:
  "(lastResponse (step e s) = lastResponse s \<or>
    (\<exists>f. e = Ws_message f \<and> truthy_bool (f_done f) \<and> \<not> truthy_str (f_error f) \<and>
         f_type f \<noteq> Some ''stats'') \<or>
    (\<exists>i ok d. e = Http_chat i (Replied ok (Some d)) \<and>
         lastResponse (step e s) = r_response d)) \<and>
   (\<not> truthy_bool (f_done f) \<or> truthy_str (f_error f) \<or> f_type f = Some ''stats'' \<longrightarrow>
      lastResponse (socket_onmessage f s) = lastResponse s) \<and>
   lastResponse (sendMessage_cont Rejected s) = lastResponse s \<and>
   lastResponse (sendMessage_cont (Replied False b) s) = lastResponse s \<and>
   lastResponse (sendMessage_cont (Replied ok None) s) = lastResponse s \<and>
   lastResponse (startSession_cont Rejected s) = lastResponse s \<and>
   lastResponse (startSession_cont (Replied ok None) s) = lastResponse s \<and>
   (\<not> valid_ws_url (WS_URL @ ''/'' @ r_session_id d) \<longrightarrow>
      lastResponse (startSession_cont (Replied ok (Some d)) s) = lastResponse s) \<and>
   lastResponse (requestHumanHelp_cont h s) = lastResponse s \<and>
   lastResponse (sendMessage_cont (Replied True (Some d)) s) = r_response d \<and>
   (valid_ws_url (WS_URL @ ''/'' @ r_session_id d) \<longrightarrow>
      lastResponse (startSession_cont (Replied True (Some d)) s) = r_response d) \<and>
   (streamingMessageEl s \<noteq> None \<longrightarrow>
      lastResponse (socket_onmessage done_frame s) = streamingText s) \<and>
   (lastResponse s \<noteq> [] \<longrightarrow>
      readLastBtn_click s = speak (lastResponse s) s \<and>
      effects (readLastBtn_click s) =
        effects s @
        (if synthSupported s
         then [SynthCancel,
               SynthSpeak (lastResponse s) (if speakSlowly s then Rate_0_7 else Rate_0_9)]
         else [])) \<and>
   (lastResponse s = [] \<longrightarrow>
      readLastBtn_click s =
        speak (''I haven'' @ [CHR 0x27] @ ''t answered anything yet. How can I help you?'') s)"
proof -
  have replay: "lastResponse s \<noteq> [] \<longrightarrow>
      readLastBtn_click s = speak (lastResponse s) s \<and>
      effects (readLastBtn_click s) =
        effects s @
        (if synthSupported s
         then [SynthCancel,
               SynthSpeak (lastResponse s) (if speakSlowly s then Rate_0_7 else Rate_0_9)]
         else [])"
    by (simp add: readLastBtn_click_def speak_def emit_def)
  have fixed: "lastResponse s = [] \<longrightarrow>
      readLastBtn_click s =
        speak (''I haven'' @ [CHR 0x27] @ ''t answered anything yet. How can I help you?'') s"
    by (simp add: readLastBtn_click_def)
  have start: "(\<not> valid_ws_url (WS_URL @ ''/'' @ r_session_id d) \<longrightarrow>
      lastResponse (startSession_cont (Replied ok (Some d)) s) = lastResponse s) \<and>
    (valid_ws_url (WS_URL @ ''/'' @ r_session_id d) \<longrightarrow>
      lastResponse (startSession_cont (Replied True (Some d)) s) = r_response d)"
    by (simp add: start_lastResponse)
  note fail = cont_failure_lastResponse [of s b ok h]
  show ?thesis
  proof (intro conjI)
    show "lastResponse (step e s) = lastResponse s \<or>
      (\<exists>f. e = Ws_message f \<and> truthy_bool (f_done f) \<and> \<not> truthy_str (f_error f) \<and>
           f_type f \<noteq> Some ''stats'') \<or>
      (\<exists>i ok d. e = Http_chat i (Replied ok (Some d)) \<and>
           lastResponse (step e s) = r_response d)"
      by (rule step_lastResponse)
    show "\<not> truthy_bool (f_done f) \<or> truthy_str (f_error f) \<or> f_type f = Some ''stats'' \<longrightarrow>
      lastResponse (socket_onmessage f s) = lastResponse s"
      using onmessage_lastResponse [of f s] by blast
    show "streamingMessageEl s \<noteq> None \<longrightarrow>
      lastResponse (socket_onmessage done_frame s) = streamingText s"
      using done_lastResponse [of s] by blast
    show "lastResponse s = [] \<longrightarrow>
      readLastBtn_click s =
        speak (''I haven'' @ [CHR 0x27] @ ''t answered anything yet. How can I help you?'') s"
      by (rule fixed)
    show "lastResponse s \<noteq> [] \<longrightarrow>
      readLastBtn_click s = speak (lastResponse s) s \<and>
      effects (readLastBtn_click s) =
        effects s @
        (if synthSupported s
         then [SynthCancel,
               SynthSpeak (lastResponse s) (if speakSlowly s then Rate_0_7 else Rate_0_9)]
         else [])"
      by (rule replay)
  qed (use fail send_lastResponse [of d s] start in blast)+
qed

theorem lastResponse_written_on_completion_only_witness:
  "\<not> truthy_bool (f_done (chunk_frame ''x'')) \<and>
   lastResponse (deliver [chunk_frame ''Hi'', done_frame] page) = ''Hi'' \<and>
   lastResponse
     (socket_onmessage (chunk_frame ''x'') (deliver [chunk_frame ''Hi'', done_frame] page)) =
     ''Hi'' \<and>
   streamingMessageEl (deliver [chunk_frame ''Hi'', done_frame, chunk_frame ''Yo''] page) \<noteq>
     None \<and>
   lastResponse
     (socket_onmessage done_frame
        (deliver [chunk_frame ''Hi'', done_frame, chunk_frame ''Yo''] page)) = ''Yo'' \<and>
   effects (readLastBtn_click (deliver [chunk_frame ''Hi'', done_frame] page)) =
     [SynthCancel, SynthSpeak ''Hi'' Rate_0_9, SynthCancel, SynthSpeak ''Hi'' Rate_0_9] \<and>
   valid_ws_url (WS_URL @ ''/'' @ ''A'') \<and>
   lastResponse
     (startSession_cont (Replied True (Some \<lparr>r_session_id = ''A'', r_response = ''Hello''\<rparr>))
        (deliver [chunk_frame ''Hi'', done_frame] page)) = ''Hello'' \<and>
   \<not> valid_ws_url (WS_URL @ ''/'' @ ''a#b'') \<and>
   lastResponse
     (startSession_cont (Replied True (Some \<lparr>r_session_id = ''a#b'', r_response = ''Hello''\<rparr>))
        (deliver [chunk_frame ''Hi'', done_frame] page)) = ''Hi'' \<and>
   lastResponse page = [] \<and>
   readLastBtn_click page =
     speak (''I haven'' @ [CHR 0x27] @ ''t answered anything yet. How can I help you?'') page"
proof -
  let ?a = "deliver [chunk_frame ''Hi'', done_frame] page"
  let ?b = "deliver [chunk_frame ''Hi'', done_frame, chunk_frame ''Yo''] page"
  let ?ok = "\<lparr>r_session_id = ''A'', r_response = ''Hello''\<rparr>"
  let ?bad = "\<lparr>r_session_id = ''a#b'', r_response = ''Hello''\<rparr>"
  have c: "\<not> truthy_bool (f_done (chunk_frame ''x''))"
    by (simp add: chunk_frame_def truthy_bool_def)
  have a: "lastResponse ?a = ''Hi'' \<and> synthSupported ?a \<and> \<not> speakSlowly ?a \<and>
           effects ?a = [SynthCancel, SynthSpeak ''Hi'' Rate_0_9]"
    by (simp add: onmessage_chunk onmessage_done update_fresh finishStreamingMessage_def
        speak_def emit_def page_def)
  have b: "streamingMessageEl ?b \<noteq> None \<and> streamingText ?b = ''Yo''"
    by (simp add: onmessage_chunk onmessage_done update_fresh finishStreamingMessage_def
        speak_def emit_def page_def)
  have u: "valid_ws_url (WS_URL @ ''/'' @ r_session_id ?ok) \<and>
           \<not> valid_ws_url (WS_URL @ ''/'' @ r_session_id ?bad)"
    by (simp add: valid_ws_url_def WS_URL_def)
  have p: "lastResponse page = []" by (simp add: page_def)
  have ne: "lastResponse ?a \<noteq> []" using a by simp
  have 1: "lastResponse (socket_onmessage (chunk_frame ''x'') ?a) = ''Hi''"
    using lastResponse_written_on_completion_only [where s = ?a and f = "chunk_frame ''x''"] c a
    by metis
  have 2: "lastResponse (socket_onmessage done_frame ?b) = ''Yo''"
    using lastResponse_written_on_completion_only [where s = ?b] b by metis
  have 3: "effects (readLastBtn_click ?a) =
        effects ?a @
        (if synthSupported ?a
         then [SynthCancel,
               SynthSpeak (lastResponse ?a) (if speakSlowly ?a then Rate_0_7 else Rate_0_9)]
         else [])"
    using lastResponse_written_on_completion_only [where s = ?a] ne by blast
  have 4: "effects (readLastBtn_click ?a) =
     [SynthCancel, SynthSpeak ''Hi'' Rate_0_9, SynthCancel, SynthSpeak ''Hi'' Rate_0_9]"
    using 3 a by (simp del: deliver.simps)
  have 5: "lastResponse (startSession_cont (Replied True (Some ?ok)) ?a) = r_response ?ok"
    using lastResponse_written_on_completion_only [where s = ?a and d = ?ok] u by blast
  have 6: "lastResponse (startSession_cont (Replied True (Some ?bad)) ?a) = lastResponse ?a"
    using lastResponse_written_on_completion_only [where s = ?a and d = ?bad and ok = True] u
    by blast
  have 7: "readLastBtn_click page =
     speak (''I haven'' @ [CHR 0x27] @ ''t answered anything yet. How can I help you?'') page"
    using lastResponse_written_on_completion_only [where s = page] p by blast
  show ?thesis using c a b u p 1 2 4 5 6 7 by simp
qed

text \<open>
  The claim as stated fails in its conclusion. The reply to a human-help request is shown
  as an assistant message and spoken, but \<^verbatim>\<open>requestHumanHelp\<close> never writes the cache: after
  the greeting "Hello" and the reply "We will call you.", the repeat-playback control
  speaks "Hello", not the most recently completed reply. And a completed reply whose text
  is empty leaves the cache empty, so that the control speaks its fixed sentence.
\<close>

theorem lastResponse_counterexample:
  "lastResponse (run [Click_start,
       Http_chat 0 (Replied True (Some \<lparr>r_session_id = ''A'', r_response = ''Hello''\<rparr>)),
       Click_human_help, Phone_typed ''555'', Click_confirm_help,
       Http_help 0 (Replied True (Some ''We will call you.''))] (init page)) = ''Hello'' \<and>
   messages (run [Click_start,
       Http_chat 0 (Replied True (Some \<lparr>r_session_id = ''A'', r_response = ''Hello''\<rparr>)),
       Click_human_help, Phone_typed ''555'', Click_confirm_help,
       Http_help 0 (Replied True (Some ''We will call you.''))] (init page)) =
     [\<lparr>m_kind = Assistant, m_text = ''Hello''\<rparr>,
      \<lparr>m_kind = Assistant, m_text = ''We will call you.''\<rparr>] \<and>
   effects (run [Click_start,
       Http_chat 0 (Replied True (Some \<lparr>r_session_id = ''A'', r_response = ''Hello''\<rparr>)),
       Click_human_help, Phone_typed ''555'', Click_confirm_help,
       Http_help 0 (Replied True (Some ''We will call you.'')),
       Click_read_last] (init page)) =
     [Fetch ''http://localhost:8000/chat'' (JObj [(''message'', JStr ''Hello'')]),
      WsNew ''ws://localhost:8000/ws/A'', SynthCancel, SynthSpeak ''Hello'' Rate_0_9,
      FocusPhone,
      Fetch ''http://localhost:8000/session/A/human-help'' (JObj [(''phone'', JStr ''555'')]),
      SynthCancel, SynthSpeak ''We will call you.'' Rate_0_9,
      SynthCancel, SynthSpeak ''Hello'' Rate_0_9] \<and>
   effects (run [Click_start,
       Http_chat 0 (Replied True (Some \<lparr>r_session_id = ''A'', r_response = ''Hello''\<rparr>)),
       Input_typed ''hi'', Click_send,
       Http_chat 0 (Replied True (Some \<lparr>r_session_id = ''A'', r_response = []\<rparr>)),
       Click_read_last] (init page)) =
     [Fetch ''http://localhost:8000/chat'' (JObj [(''message'', JStr ''Hello'')]),
      WsNew ''ws://localhost:8000/ws/A'', SynthCancel, SynthSpeak ''Hello'' Rate_0_9,
      Fetch ''http://localhost:8000/chat''
        (JObj [(''message'', JStr ''hi''), (''session_id'', JStr ''A''),
               (''speak_slowly'', JBool False)]),
      SynthCancel, SynthSpeak [] Rate_0_9,
      SynthCancel,
      SynthSpeak (''I haven'' @ [CHR 0x27] @ ''t answered anything yet. How can I help you?'')
        Rate_0_9]"
  by (simp add: page_def init_def basic_defs handler_defs const_defs Let_def trim_def
      is_space_def)


end
